theory Spec2Isabelle
  imports Complex_Main "HOL-Library.Sublist" "HOL-Library.Monad_Syntax" "HOL-Library.Multiset"
begin

section \<open>Strings, digits and the version-specifier regular expression\<close>

text \<open>
  JavaScript strings are modelled as \<open>string\<close> (lists of characters). The regular
  expression of \<^verbatim>\<open>types.ts\<close>,
  \<^verbatim>\<open>/^(\^|~|>=|>|<=|<|=)?(\d+)\.(\d+)\.(\d+)(-[a-zA-Z0-9.-]+)?$/\<close>,
  is embedded as a matcher that returns the five capture groups; an optional group that
  did not take part in the match is \<open>None\<close> (JavaScript's \<^verbatim>\<open>undefined\<close>).
\<close>

definition is_digit :: "char \<Rightarrow> bool" where
  "is_digit c = (c \<in> set ''0123456789'')"

definition is_prerelease_char :: "char \<Rightarrow> bool" where
  "is_prerelease_char c =
     (c \<in> set ''abcdefghijklmnopqrstuvwxyzABCDEFGHIJKLMNOPQRSTUVWXYZ0123456789.-'')"

definition digit_val :: "char \<Rightarrow> nat" where
  "digit_val c = of_char c - 48"

definition digits_val :: "string \<Rightarrow> nat" where
  "digits_val ds = foldl (\<lambda>a c. 10 * a + digit_val c) 0 ds"

definition digit_char :: "nat \<Rightarrow> char" where
  "digit_char d = ''0123456789'' ! d"

fun dec :: "nat \<Rightarrow> string" where
  "dec n = (if n < 10 then [digit_char n] else dec (n div 10) @ [digit_char (n mod 10)])"

declare dec.simps [simp del]

text \<open>The alternatives of the first group, in the order the regular expression tries them.\<close>

definition MODIFIER_ALTERNATIVES :: "string list" where
  "MODIFIER_ALTERNATIVES = [''^'', ''~'', ''>='', ''>'', ''<='', ''<'', ''='']"

text \<open>\<^verbatim>\<open>(\d+)\<close>: the longest non-empty run of digits (giving a digit back never helps,
  since what follows is never a digit).\<close>

definition take_digits :: "string \<Rightarrow> (string \<times> string) option" where
  "take_digits s =
     (let ds = takeWhile is_digit s
      in if ds = [] then None else Some (ds, dropWhile is_digit s))"

definition expect_dot :: "string \<Rightarrow> string option" where
  "expect_dot s = (case s of [] \<Rightarrow> None | c # r \<Rightarrow> if c = CHR ''.'' then Some r else None)"

text \<open>\<^verbatim>\<open>(-[a-zA-Z0-9.-]+)?$\<close>: \<open>None\<close> is no match, \<open>Some None\<close> a match without the
  group, \<open>Some (Some p)\<close> a match with the prerelease \<open>p\<close> (its dash included).\<close>

definition match_prerelease :: "string \<Rightarrow> string option option" where
  "match_prerelease s =
     (case s of
        [] \<Rightarrow> Some None
      | c # t \<Rightarrow> if c = CHR ''-'' \<and> t \<noteq> [] \<and> list_all is_prerelease_char t
                 then Some (Some s) else None)"

definition match_version_core ::
    "string \<Rightarrow> (string \<times> string \<times> string \<times> string option) option" where
  "match_version_core s =
     do {
       (major, r1) \<leftarrow> take_digits s;
       r2 \<leftarrow> expect_dot r1;
       (minor, r3) \<leftarrow> take_digits r2;
       r4 \<leftarrow> expect_dot r3;
       (patch, r5) \<leftarrow> take_digits r4;
       pre \<leftarrow> match_prerelease r5;
       Some (major, minor, patch, pre)
     }"

type_synonym groups = "string option \<times> string \<times> string \<times> string \<times> string option"

fun try_modifiers :: "string list \<Rightarrow> string \<Rightarrow> groups option" where
  "try_modifiers [] s =
     (case match_version_core s of
        None \<Rightarrow> None
      | Some (major, minor, patch, pre) \<Rightarrow> Some (None, major, minor, patch, pre))"
| "try_modifiers (a # as) s =
     (if prefix a s then
        (case match_version_core (drop (length a) s) of
           Some (major, minor, patch, pre) \<Rightarrow> Some (Some a, major, minor, patch, pre)
         | None \<Rightarrow> try_modifiers as s)
      else try_modifiers as s)"

definition VERSION_RANGE_REGEX_exec :: "string \<Rightarrow> groups option" where
  "VERSION_RANGE_REGEX_exec s = try_modifiers MODIFIER_ALTERNATIVES s"

text \<open>The version grammar in the words of the specification: an optional range modifier
  (\<^verbatim>\<open>^ ~ >= > <= < =\<close> or empty), then \<^verbatim>\<open>major.minor.patch\<close>, then an optional
  prerelease suffix.\<close>

definition digit_string :: "string \<Rightarrow> bool" where
  "digit_string ds = (ds \<noteq> [] \<and> list_all is_digit ds)"

definition prerelease_suffix :: "string \<Rightarrow> bool" where
  "prerelease_suffix p =
     (p = [] \<or> (\<exists>t. p = CHR ''-'' # t \<and> t \<noteq> [] \<and> list_all is_prerelease_char t))"

definition version_grammar :: "string \<Rightarrow> bool" where
  "version_grammar s =
     (\<exists>md major minor patch pre.
        s = md @ major @ ''.'' @ minor @ ''.'' @ patch @ pre \<and>
        (md = [] \<or> md \<in> set MODIFIER_ALTERNATIVES) \<and>
        digit_string major \<and> digit_string minor \<and> digit_string patch \<and>
        prerelease_suffix pre)"


section \<open>JavaScript numbers\<close>

text \<open>
  \<^verbatim>\<open>Number(major)\<close> turns a digit string into an IEEE-754 double and the template
  literal turns the double back into text. Every number the mutator handles is a
  non-negative integer or \<^verbatim>\<open>Infinity\<close>, so \<open>jsnum\<close> holds exactly those values.
  \<open>f64_round\<close> rounds an integer to the nearest double (ties to even); integers below
  \<open>2^53\<close> are exact.
\<close>

datatype jsnum = Num nat | PosInfinity

fun bitlen :: "nat \<Rightarrow> nat" where
  "bitlen n = (if n = 0 then 0 else Suc (bitlen (n div 2)))"

declare bitlen.simps [simp del]

definition f64_round :: "nat \<Rightarrow> jsnum" where
  "f64_round v =
     (if v < 2 ^ 53 then Num v
      else
        let e = bitlen v - 53;
            q = v div 2 ^ e;
            r = v mod 2 ^ e;
            h = 2 ^ (e - 1);
            q' = (if r > h \<or> (r = h \<and> odd q) then q + 1 else q);
            w = q' * 2 ^ e
        in if w \<ge> 2 ^ 1024 then PosInfinity else Num w)"

definition Number :: "string \<Rightarrow> jsnum" where
  "Number ds = f64_round (digits_val ds)"

text \<open>\<open>x + c\<close> and \<open>Math.max(0, x - c)\<close> for an integer \<open>c \<ge> 0\<close>.\<close>

definition js_plus :: "jsnum \<Rightarrow> nat \<Rightarrow> jsnum" where
  "js_plus x c = (case x of PosInfinity \<Rightarrow> PosInfinity | Num v \<Rightarrow> f64_round (v + c))"

definition js_minus_max0 :: "jsnum \<Rightarrow> nat \<Rightarrow> jsnum" where
  "js_minus_max0 x c =
     (case x of
        PosInfinity \<Rightarrow> PosInfinity
      | Num v \<Rightarrow> if v \<le> c then Num 0 else f64_round (v - c))"

text \<open>
  Number-to-string conversion of ECMAScript for these values: with \<open>k\<close> the least number
  of significant digits \<open>s\<close> such that \<open>s * 10^(n-k)\<close> converts back to the same double,
  the text is the digits of \<open>s\<close> followed by \<open>n - k\<close> zeros when \<open>n \<le> 21\<close>, and
  exponent notation otherwise. Below \<open>2^53\<close> that is the decimal expansion itself.
  \<open>shortest_from v j\<close> looks for the candidates that are multiples of \<open>10^j\<close>, from
  the fewest significant digits upwards, and prefers the one closest to \<open>v\<close>.
\<close>

definition round_trips :: "nat \<Rightarrow> nat \<Rightarrow> bool" where
  "round_trips w v = (f64_round w = Num v)"

fun shortest_from :: "nat \<Rightarrow> nat \<Rightarrow> nat" where
  "shortest_from v 0 = v"
| "shortest_from v (Suc j) =
     (let p = 10 ^ Suc j;
          lo = (v div p) * p;
          hi = lo + p;
          okl = (lo > 0 \<and> round_trips lo v);
          okh = round_trips hi v
      in if okl \<and> okh then
           (if v - lo < hi - v then lo
            else if hi - v < v - lo then hi
            else if even (v div p) then lo else hi)
         else if okl then lo
         else if okh then hi
         else shortest_from v j)"

definition js_shortest :: "nat \<Rightarrow> nat" where
  "js_shortest v = shortest_from v (length (dec v) - 1)"

definition strip_zeros :: "string \<Rightarrow> string" where
  "strip_zeros s = rev (dropWhile (\<lambda>c. c = CHR ''0'') (rev s))"

definition Number_toString :: "jsnum \<Rightarrow> string" where
  "Number_toString x =
     (case x of
        PosInfinity \<Rightarrow> ''Infinity''
      | Num v \<Rightarrow>
          if v < 2 ^ 53 then dec v
          else
            let w = dec (js_shortest v); n = length w
            in if n \<le> 21 then w
               else
                 let s = strip_zeros w
                 in hd s # (if tl s = [] then [] else CHR ''.'' # tl s) @ ''e+'' @ dec (n - 1))"

section \<open>The random source\<close>

text \<open>
  \<^verbatim>\<open>Math.random()\<close> is ambient in the source; here the stream of future draws is passed
  explicitly. A stream is any sequence of reals, and a draw reads its head into the
  half-open unit interval (an entry outside it reads as \<open>0\<close>), so that every draw is a
  value \<open>0 \<le> r < 1\<close> as in JavaScript and every such sequence of draws is represented.
  Probabilities are compared in exact arithmetic.
\<close>

type_synonym rng = "nat \<Rightarrow> real"

definition draw :: "rng \<Rightarrow> real" where
  "draw g = (if 0 \<le> g 0 \<and> g 0 < 1 then g 0 else 0)"

definition rest :: "rng \<Rightarrow> rng" where
  "rest g = (\<lambda>n. g (Suc n))"

text \<open>\<^verbatim>\<open>Math.floor(Math.random() * n)\<close>.\<close>

definition random_index :: "nat \<Rightarrow> rng \<Rightarrow> nat" where
  "random_index n g = nat \<lfloor>draw g * real n\<rfloor>"

section \<open>The version specifier mutator\<close>

definition VERSION_MODIFIERS :: "string list" where
  "VERSION_MODIFIERS = [''^'', ''~'', ''>='', ''>'', ''='', ''<'', ''<='', '''']"

definition MAJOR_VERSION_BOUND :: nat where
  "MAJOR_VERSION_BOUND = 3"

definition MINOR_VERSION_BOUND :: nat where
  "MINOR_VERSION_BOUND = 5"

definition PATCH_VERSION_BOUND :: nat where
  "PATCH_VERSION_BOUND = 10"

text \<open>\<^verbatim>\<open>x || ''\<close> for an optional string.\<close>

definition or_empty :: "string option \<Rightarrow> string" where
  "or_empty x = (case x of None \<Rightarrow> [] | Some s \<Rightarrow> s)"

definition render_version :: "string \<Rightarrow> jsnum \<Rightarrow> jsnum \<Rightarrow> jsnum \<Rightarrow> string \<Rightarrow> string" where
  "render_version md major minor patch pre =
     md @ Number_toString major @ ''.'' @ Number_toString minor @ ''.''
        @ Number_toString patch @ pre"

text \<open>
  \<^verbatim>\<open>const change = Math.floor(Math.random() * BOUND) + 1;\<close>
  \<^verbatim>\<open>x = Math.max(0, Math.random() > 0.5 ? x + change : x - change);\<close>
  Two draws: the offset, then the sign.
\<close>

definition shift_component :: "nat \<Rightarrow> jsnum \<Rightarrow> rng \<Rightarrow> jsnum \<times> rng" where
  "shift_component bound x g =
     (let change = random_index bound g + 1;
          g1 = rest g
      in (if draw g1 > 0.5 then js_plus x change else js_minus_max0 x change, rest g1))"

definition createVersionWithinConstraint ::
    "string \<Rightarrow> jsnum \<Rightarrow> jsnum \<Rightarrow> jsnum \<Rightarrow> real \<Rightarrow> rng \<Rightarrow> string \<times> rng" where
  "createVersionWithinConstraint modifier major minor patch aggressionLevel g =
     (let scaledAggression = aggressionLevel / 10
      in if draw g < scaledAggression * 0.8 then
           let g1 = rest g;
               newModifier =
                 (if modifier = ''^'' then (if draw g1 < 0.6 then ''~'' else '''')
                  else if modifier = ''~'' then (if draw g1 < 0.7 then '''' else ''^'')
                  else (if draw g1 < 0.3 then ''='' else ''''));
               g2 = rest g1
           in if draw g2 < 0.6 then
                let (newMinor, g3) = shift_component MINOR_VERSION_BOUND minor (rest g2)
                in (render_version newModifier major newMinor patch [], g3)
              else
                let (newPatch, g3) = shift_component PATCH_VERSION_BOUND patch (rest g2)
                in (render_version newModifier major minor newPatch [], g3)
         else (render_version modifier major minor patch [], rest g))"

text \<open>
  A \<^verbatim>\<open>Record<string, string>\<close> is an association list in the enumeration order of
  \<^verbatim>\<open>Object.keys\<close>. The key of \<^verbatim>\<open>versionConstraints\<close> that applies to a package is the
  first key that is the package name or a scope of it; an empty key or an empty
  constraint is falsy and skipped.
\<close>

type_synonym dict = "(string \<times> string) list"

definition Object_keys :: "dict \<Rightarrow> string list" where
  "Object_keys d = map fst d"

definition matches_package :: "string \<Rightarrow> string \<Rightarrow> bool" where
  "matches_package packageName key = (packageName = key \<or> prefix (key @ ''/'') packageName)"

definition find_constraint :: "string option \<Rightarrow> dict option \<Rightarrow> groups option" where
  "find_constraint packageName versionConstraints =
     (case (packageName, versionConstraints) of
        (Some name, Some cs) \<Rightarrow>
          if name = [] then None
          else
            (case find (matches_package name) (Object_keys cs) of
               None \<Rightarrow> None
             | Some constraintKey \<Rightarrow>
                 if constraintKey = [] then None
                 else
                   (case map_of cs constraintKey of
                      None \<Rightarrow> None
                    | Some constraint \<Rightarrow>
                        if constraint = [] then None else VERSION_RANGE_REGEX_exec constraint))
      | _ \<Rightarrow> None)"

text \<open>The three random steps of free mutation, each returning the remaining stream.\<close>

definition choose_modifier :: "string \<Rightarrow> real \<Rightarrow> string option \<Rightarrow> rng \<Rightarrow> string \<times> rng" where
  "choose_modifier modifier scaledAggression conflictMode g =
     (if draw g < scaledAggression * 0.8 then
        let g1 = rest g
        in if conflictMode = Some ''realistic'' then
             (if draw g1 < 0.6 then ('''', rest g1)
              else (if draw (rest g1) < 0.7 then ''~'' else ''^'', rest (rest g1)))
           else
             (let i = random_index (length VERSION_MODIFIERS) g1
              in (if i < length VERSION_MODIFIERS then VERSION_MODIFIERS ! i else '''', rest g1))
      else (modifier, rest g))"

definition change_numbers ::
    "real \<Rightarrow> jsnum \<Rightarrow> jsnum \<Rightarrow> jsnum \<Rightarrow> real \<Rightarrow> bool option \<Rightarrow> string option \<Rightarrow> rng
      \<Rightarrow> (jsnum \<times> jsnum \<times> jsnum) \<times> rng" where
  "change_numbers modType major minor patch scaledAggression respectMajorVersion conflictMode g =
     (if draw g < scaledAggression * 0.7 then
        if modType < 0.3 \<and> respectMajorVersion \<noteq> Some True \<and> conflictMode \<noteq> Some ''realistic''
        then
          let (newMajor, g1) = shift_component MAJOR_VERSION_BOUND major (rest g)
          in ((newMajor, minor, patch), g1)
        else if modType < 0.7 then
          let (newMinor, g1) = shift_component MINOR_VERSION_BOUND minor (rest g)
          in ((major, newMinor, patch), g1)
        else
          let (newPatch, g1) = shift_component PATCH_VERSION_BOUND patch (rest g)
          in ((major, minor, newPatch), g1)
      else ((major, minor, patch), rest g))"

definition pin_exact ::
    "string \<Rightarrow> jsnum \<Rightarrow> real \<Rightarrow> string option \<Rightarrow> rng \<Rightarrow> (string \<times> jsnum) \<times> rng" where
  "pin_exact modifier patch scaledAggression conflictMode g =
     (if conflictMode = Some ''realistic'' then
        if draw g < 0.4 * scaledAggression then
          let g1 = rest g
          in if draw g1 < 0.5 then
               (('''', js_plus patch (1 + random_index 3 (rest g1))), rest (rest g1))
             else (('''', patch), rest g1)
        else ((modifier, patch), rest g)
      else ((modifier, patch), g))"

definition scrambleVersion ::
    "string \<Rightarrow> real \<Rightarrow> bool option \<Rightarrow> string option \<Rightarrow> dict option \<Rightarrow> string option
      \<Rightarrow> rng \<Rightarrow> string \<times> rng" where
  "scrambleVersion originalVersion aggressionLevel respectMajorVersion packageName
       versionConstraints conflictMode g =
     (case VERSION_RANGE_REGEX_exec originalVersion of
        None \<Rightarrow> (originalVersion, g)
      | Some (modifier, major, minor, patch, prerelease) \<Rightarrow>
          (case find_constraint packageName versionConstraints of
             Some (cModifier, cMajor, cMinor, cPatch, cPre) \<Rightarrow>
               createVersionWithinConstraint (or_empty cModifier) (Number cMajor)
                 (Number cMinor) (Number cPatch) aggressionLevel g
           | None \<Rightarrow>
               let scaledAggression = aggressionLevel / 10;
                   modType = draw g;
                   (newModifier, g1) =
                      choose_modifier (or_empty modifier) scaledAggression conflictMode (rest g);
                   ((newMajor, newMinor, newPatch), g2) =
                      change_numbers modType (Number major) (Number minor) (Number patch)
                        scaledAggression respectMajorVersion conflictMode g1;
                   ((newModifier', newPatch'), g3) =
                      pin_exact newModifier newPatch scaledAggression conflictMode g2
               in (render_version newModifier' newMajor newMinor newPatch' (or_empty prerelease),
                   g3)))"

section \<open>Manifests in an object store\<close>

text \<open>
  The dependency maps of a manifest are mutable objects that the source shares by
  reference, so they live in a store: a list of dictionaries addressed by index. A
  manifest holds, for each category, a reference or \<open>None\<close> (\<^verbatim>\<open>undefined\<close>). Assigning a
  property of \<^verbatim>\<open>undefined\<close> raises a \<^verbatim>\<open>TypeError\<close>; functions that write return
  \<open>js_error + _\<close> with \<open>Inl\<close> for the exception.
\<close>

datatype DependencyType =
  DEPENDENCIES | DEV_DEPENDENCIES | PEER_DEPENDENCIES | OPTIONAL_DEPENDENCIES

definition depType_string :: "DependencyType \<Rightarrow> string" where
  "depType_string t =
     (case t of
        DEPENDENCIES \<Rightarrow> ''dependencies''
      | DEV_DEPENDENCIES \<Rightarrow> ''devDependencies''
      | PEER_DEPENDENCIES \<Rightarrow> ''peerDependencies''
      | OPTIONAL_DEPENDENCIES \<Rightarrow> ''optionalDependencies'')"

datatype js_error = TypeError

type_synonym ref = nat

type_synonym store = "dict list"

record PackageJson =
  manifest_name :: string
  manifest_version :: string
  dependencies :: "ref option"
  devDependencies :: "ref option"
  peerDependencies :: "ref option"
  optionalDependencies :: "ref option"

text \<open>\<^verbatim>\<open>pkg[depType]\<close>.\<close>

definition category :: "PackageJson \<Rightarrow> DependencyType \<Rightarrow> ref option" where
  "category pkg t =
     (case t of
        DEPENDENCIES \<Rightarrow> dependencies pkg
      | DEV_DEPENDENCIES \<Rightarrow> devDependencies pkg
      | PEER_DEPENDENCIES \<Rightarrow> peerDependencies pkg
      | OPTIONAL_DEPENDENCIES \<Rightarrow> optionalDependencies pkg)"

text \<open>\<^verbatim>\<open>obj[key] = value\<close> on a dictionary: an existing key keeps its place, a new key
  goes last.\<close>

fun dict_set :: "dict \<Rightarrow> string \<Rightarrow> string \<Rightarrow> dict" where
  "dict_set [] k v = [(k, v)]"
| "dict_set ((k', v') # d) k v = (if k' = k then (k, v) # d else (k', v') # dict_set d k v)"

definition obj_set :: "ref option \<Rightarrow> string \<Rightarrow> string \<Rightarrow> store \<Rightarrow> js_error + store" where
  "obj_set target k v h =
     (case target of
        None \<Rightarrow> Inl TypeError
      | Some a \<Rightarrow> Inr (h[a := dict_set (h ! a) k v]))"

text \<open>\<^verbatim>\<open>m || {}\<close> read through the store.\<close>

definition dict_of :: "store \<Rightarrow> ref option \<Rightarrow> dict" where
  "dict_of h r = (case r of None \<Rightarrow> [] | Some a \<Rightarrow> h ! a)"

text \<open>\<^verbatim>\<open>JSON.parse(JSON.stringify(pkg))\<close>: every category that is present is copied into
  a newly allocated object.\<close>

definition copy_category :: "ref option \<Rightarrow> store \<Rightarrow> ref option \<times> store" where
  "copy_category r h =
     (case r of
        None \<Rightarrow> (None, h)
      | Some a \<Rightarrow> (Some (length h), h @ [h ! a]))"

definition deep_copy :: "PackageJson \<Rightarrow> store \<Rightarrow> PackageJson \<times> store" where
  "deep_copy pkg h =
     (let (d, h1) = copy_category (dependencies pkg) h;
          (dv, h2) = copy_category (devDependencies pkg) h1;
          (pr, h3) = copy_category (peerDependencies pkg) h2;
          (op, h4) = copy_category (optionalDependencies pkg) h3
      in (\<lparr>manifest_name = manifest_name pkg, manifest_version = manifest_version pkg,
            dependencies = d, devDependencies = dv, peerDependencies = pr,
            optionalDependencies = op\<rparr>, h4))"

section \<open>Options and their defaults\<close>

record RouletteOptions =
  dependencyTypes :: "DependencyType list option"
  scramblePercentage :: "real option"
  aggressionLevel :: "real option"
  versionConstraints :: "dict option"
  respectMajorVersions :: "bool option"
  conflictMode :: "string option"

definition DEFAULT_OPTIONS :: RouletteOptions where
  "DEFAULT_OPTIONS =
     \<lparr>dependencyTypes =
        Some [DEPENDENCIES, DEV_DEPENDENCIES, PEER_DEPENDENCIES, OPTIONAL_DEPENDENCIES],
      scramblePercentage = Some 30,
      aggressionLevel = Some 5,
      versionConstraints = Some [],
      respectMajorVersions = Some True,
      conflictMode = Some ''realistic''\<rparr>"

text \<open>\<^verbatim>\<open>a || b\<close>: a number is falsy when it is \<^verbatim>\<open>undefined\<close> or \<open>0\<close>, a string when it
  is \<^verbatim>\<open>undefined\<close> or empty, an array or object only when it is \<^verbatim>\<open>undefined\<close>.\<close>

definition number_or :: "real option \<Rightarrow> real \<Rightarrow> real" where
  "number_or x d = (case x of None \<Rightarrow> d | Some v \<Rightarrow> if v = 0 then d else v)"

definition string_or :: "string option \<Rightarrow> string \<Rightarrow> string" where
  "string_or x d = (case x of None \<Rightarrow> d | Some s \<Rightarrow> if s = [] then d else s)"

definition object_or :: "'a option \<Rightarrow> 'a \<Rightarrow> 'a" where
  "object_or x d = (case x of None \<Rightarrow> d | Some v \<Rightarrow> v)"

section \<open>The scramble session\<close>

text \<open>The accumulators the Selector and the Strategist share within one invocation:
  the store, the remaining random draws, the names scrambled per category and the
  issue log.\<close>

record session =
  objects :: store
  rnd :: rng
  scrambledDeps :: "DependencyType \<Rightarrow> string list"
  issues :: "string list"

fun forEach :: "('a \<Rightarrow> 's \<Rightarrow> js_error + 's) \<Rightarrow> 'a list \<Rightarrow> 's \<Rightarrow> js_error + 's" where
  "forEach f [] st = Inr st"
| "forEach f (x # xs) st = (case f x st of Inl e \<Rightarrow> Inl e | Inr st' \<Rightarrow> forEach f xs st')"

text \<open>The three effects of one recorded change, in the order of the source: the write
  into the target map, the push onto the scrambled names, the push onto the issues.\<close>

definition record_change ::
    "ref option \<Rightarrow> DependencyType \<Rightarrow> string \<Rightarrow> string \<Rightarrow> string \<Rightarrow> session \<Rightarrow> js_error + session" where
  "record_change target t key newVersion issue st =
     (case obj_set target key newVersion (objects st) of
        Inl e \<Rightarrow> Inl e
      | Inr h \<Rightarrow>
          Inr (st\<lparr>objects := h,
                  scrambledDeps := (scrambledDeps st)(t := scrambledDeps st t @ [key]),
                  issues := issues st @ [issue]\<rparr>))"

text \<open>\<^verbatim>\<open>xs[Math.floor(Math.random() * xs.length)]\<close>, \<open>None\<close> for \<^verbatim>\<open>undefined\<close>.\<close>

definition pick :: "string list \<Rightarrow> rng \<Rightarrow> string option" where
  "pick xs g = (let i = random_index (length xs) g in if i < length xs then Some (xs ! i) else None)"

definition truthy :: "string option \<Rightarrow> bool" where
  "truthy x = (case x of None \<Rightarrow> False | Some s \<Rightarrow> s \<noteq> [])"

text \<open>An optional string inside a template literal.\<close>

definition template :: "string option \<Rightarrow> string" where
  "template x = (case x of None \<Rightarrow> ''undefined'' | Some s \<Rightarrow> s)"

section \<open>The Conflict Strategist\<close>

text \<open>
  \<^verbatim>\<open>semver.coerce\<close> belongs to the \<^verbatim>\<open>semver\<close> package, not to this repository; it is a
  parameter \<open>coerce\<close> that returns the major, minor and patch numbers of the coerced
  version, or \<open>None\<close> where \<^verbatim>\<open>semver.valid(semver.coerce(v))\<close> is falsy.
\<close>

type_synonym coercion = "string \<Rightarrow> (nat \<times> nat \<times> nat) option"

definition num_string :: "jsnum \<Rightarrow> string" where
  "num_string x = Number_toString x"

text \<open>Strategy 1: a conflict between a peer dependency and the regular dependency of
  the same name.\<close>

definition peer_conflict_version :: "nat \<times> nat \<times> nat \<Rightarrow> rng \<Rightarrow> string \<times> rng" where
  "peer_conflict_version c g =
     (case c of (major, minor, patch) \<Rightarrow>
        let strategyChoice = draw g; g1 = rest g
        in if strategyChoice < 0.4 then
             let majorDiff = random_index 2 g1 + 1
             in (''^'' @ num_string (js_plus (f64_round major) majorDiff) @ ''.0.0'', rest g1)
           else if strategyChoice < 0.7 then
             (num_string (f64_round major) @ ''.'' @ num_string (f64_round minor) @ ''.''
                @ num_string (js_plus (f64_round patch) 1), g1)
           else
             (''>='' @ num_string (f64_round major) @ ''.''
                @ num_string (js_plus (f64_round minor) 2) @ ''.0 <''
                @ num_string (f64_round major) @ ''.''
                @ num_string (js_plus (f64_round minor) 5) @ ''.0'', g1))"

text \<open>
  The gate \<^verbatim>\<open>currentDepType === PEER_DEPENDENCIES || (conflictMode === 'peer-conflict' &&
  Math.random() < 0.8)\<close>: a draw is consumed only when the second disjunct is reached.
\<close>

definition peer_gate :: "DependencyType \<Rightarrow> string \<Rightarrow> rng \<Rightarrow> bool \<times> rng" where
  "peer_gate currentDepType mode g =
     (if currentDepType = PEER_DEPENDENCIES then (True, g)
      else if mode = ''peer-conflict'' then (draw g < 0.8, rest g)
      else (False, g))"

text \<open>\<^verbatim>\<open>sharedDeps.includes('react') && Math.random() < 0.7 ? 'react' :
  sharedDeps[Math.floor(Math.random() * sharedDeps.length)]\<close>.\<close>

definition choose_shared :: "string list \<Rightarrow> rng \<Rightarrow> string option \<times> rng" where
  "choose_shared sharedDeps g =
     (if ''react'' \<in> set sharedDeps then
        (if draw g < 0.7 then (Some ''react'', rest g)
         else (pick sharedDeps (rest g), rest (rest g)))
      else (pick sharedDeps g, rest g))"

definition peer_write ::
    "coercion \<Rightarrow> PackageJson \<Rightarrow> string \<Rightarrow> string \<Rightarrow> session \<Rightarrow> js_error + session" where
  "peer_write coerce modified sharedDep regularVersion st =
     (case coerce regularVersion of
        None \<Rightarrow> Inr st
      | Some c \<Rightarrow>
          let (conflictVersion, g1) = peer_conflict_version c (rnd st)
          in if peerDependencies modified \<noteq> None then
               record_change (peerDependencies modified) PEER_DEPENDENCIES sharedDep
                 conflictVersion
                 (''Created peer dependency conflict for '' @ sharedDep
                    @ '': regular='' @ regularVersion @ '', peer='' @ conflictVersion)
                 (st\<lparr>rnd := g1\<rparr>)
             else Inr (st\<lparr>rnd := g1\<rparr>))"

definition peer_strategy ::
    "coercion \<Rightarrow> PackageJson \<Rightarrow> PackageJson \<Rightarrow> DependencyType \<Rightarrow> string \<Rightarrow> session
      \<Rightarrow> js_error + session" where
  "peer_strategy coerce original modified currentDepType mode st =
     (let (gate, g1) = peer_gate currentDepType mode (rnd st);
          regular = dict_of (objects st) (dependencies original)
      in if gate \<and> dependencies original \<noteq> None \<and> Object_keys regular \<noteq> [] then
           let peerDeps = dict_of (objects st) (peerDependencies original);
               sharedDeps = filter (\<lambda>dep. truthy (map_of regular dep)) (Object_keys peerDeps)
           in if sharedDeps \<noteq> [] then
                let (sharedDep, g2) = choose_shared sharedDeps g1;
                    regularVersion =
                      (case sharedDep of
                         None \<Rightarrow> None
                       | Some d \<Rightarrow> if d = [] then None else map_of regular d)
                in (case (sharedDep, regularVersion) of
                      (Some d, Some rv) \<Rightarrow>
                        if rv = [] then Inr (st\<lparr>rnd := g2\<rparr>)
                        else peer_write coerce modified d rv (st\<lparr>rnd := g2\<rparr>)
                    | _ \<Rightarrow> Inr (st\<lparr>rnd := g2\<rparr>))
              else Inr (st\<lparr>rnd := g1\<rparr>)
         else Inr (st\<lparr>rnd := g1\<rparr>))"

text \<open>Strategy 2: a simulated transitive conflict against the catalog of popular
  packages.\<close>

definition popularPackages :: "string list" where
  "popularPackages =
     [''react'', ''react-dom'', ''angular'', ''@angular/core'', ''vue'',
      ''express'', ''next'', ''gatsby'', ''webpack'']"

text \<open>The \<^verbatim>\<open>name\<close> fields of \<^verbatim>\<open>transitiveConflicts\<close>; the other fields are never read.\<close>

definition transitiveConflicts :: "string list" where
  "transitiveConflicts = [''@babel/core'', ''webpack'', ''react'', ''typescript'']"

definition transitive_step ::
    "PackageJson \<Rightarrow> PackageJson \<Rightarrow> string \<Rightarrow> string \<Rightarrow> session \<Rightarrow> js_error + session" where
  "transitive_step original modified newVersion conflict_name st =
     (let depVersion = map_of (dict_of (objects st) (dependencies original)) conflict_name
      in case depVersion of
           None \<Rightarrow> Inr st
         | Some dv \<Rightarrow>
             if dv \<noteq> [] \<and> conflict_name \<notin> set (scrambledDeps st DEPENDENCIES) then
               record_change (dependencies modified) DEPENDENCIES conflict_name newVersion
                 (''Created potential transitive dependency conflict for '' @ conflict_name
                    @ '': '' @ dv @ '' -> '' @ newVersion)
                 st
             else Inr st)"

definition transitive_strategy ::
    "coercion \<Rightarrow> PackageJson \<Rightarrow> PackageJson \<Rightarrow> real \<Rightarrow> string \<Rightarrow> session \<Rightarrow> js_error + session" where
  "transitive_strategy coerce original modified scaledAggression mode st =
     (if mode = ''realistic'' then
        let g = rnd st; g1 = rest g
        in if draw g < scaledAggression * 0.6 then
             let regular = dict_of (objects st) (dependencies original);
                 depKeys = Object_keys regular;
                 foundPopular =
                   filter (\<lambda>p. list_ex (\<lambda>dep. dep = p \<or> prefix (p @ ''/'') dep) depKeys)
                     popularPackages
             in if foundPopular \<noteq> [] \<and> dependencies modified \<noteq> None then
                  let targetPkg = pick foundPopular g1;
                      g2 = rest g1;
                      matchingDeps =
                        filter (\<lambda>dep. Some dep = targetPkg \<or> prefix (template targetPkg @ ''/'') dep)
                          depKeys
                  in if matchingDeps \<noteq> [] then
                       let dep = pick matchingDeps g2;
                           g3 = rest g2;
                           originalVersion =
                             (case dep of
                                None \<Rightarrow> None
                              | Some d \<Rightarrow> if d = [] then None else map_of regular d)
                       in (case originalVersion of
                             None \<Rightarrow> Inr (st\<lparr>rnd := g3\<rparr>)
                           | Some ov \<Rightarrow>
                               if ov = [] then Inr (st\<lparr>rnd := g3\<rparr>)
                               else
                                 (case coerce ov of
                                    None \<Rightarrow> Inr (st\<lparr>rnd := g3\<rparr>)
                                  | Some (major, minor, patch) \<Rightarrow>
                                      let newMinor =
                                            js_minus_max0
                                              (js_minus_max0 (f64_round minor) (random_index 3 g3)) 1;
                                          newVersion =
                                            num_string (f64_round major) @ ''.''
                                              @ num_string newMinor @ ''.0''
                                      in forEach (transitive_step original modified newVersion)
                                           transitiveConflicts (st\<lparr>rnd := rest g3\<rparr>)))
                     else Inr (st\<lparr>rnd := g2\<rparr>)
                else Inr (st\<lparr>rnd := g1\<rparr>)
           else Inr (st\<lparr>rnd := g1\<rparr>)
      else Inr st)"

text \<open>
  Strategy 3: a patch mismatch inside a family of packages that share a prefix. The
  prefix is the first group of \<^verbatim>\<open>/^(@[^/]+\/|[^@][^/]+-)/\<close>: a scope with its slash, or,
  for a name that does not start with \<^verbatim>\<open>@\<close>, the name up to the last dash that comes
  before any slash (with at least one character between the first one and that dash).
\<close>

definition not_slash :: "char \<Rightarrow> bool" where
  "not_slash c = (c \<noteq> CHR ''/'')"

definition family_prefix :: "string \<Rightarrow> string option" where
  "family_prefix dep =
     (case dep of
        [] \<Rightarrow> None
      | c # r \<Rightarrow>
          if c = CHR ''@'' then
            (let scope = takeWhile not_slash r
             in if scope \<noteq> [] \<and> length scope < length r then Some (c # scope @ ''/'') else None)
          else
            (let run = takeWhile not_slash r;
                 upto_dash = rev (dropWhile (\<lambda>x. x \<noteq> CHR ''-'') (rev run))
             in if length upto_dash \<ge> 2 then Some (c # upto_dash) else None))"

text \<open>\<^verbatim>\<open>prefixes.add(match[1])\<close> over the keys: a set in insertion order.\<close>

definition collect_prefixes :: "string list \<Rightarrow> string list" where
  "collect_prefixes depKeys =
     foldl (\<lambda>acc dep.
              case family_prefix dep of
                None \<Rightarrow> acc
              | Some p \<Rightarrow> if p \<in> set acc then acc else acc @ [p])
       [] depKeys"

definition sibling_step ::
    "PackageJson \<Rightarrow> PackageJson \<Rightarrow> groups \<Rightarrow> string \<Rightarrow> string \<Rightarrow> session \<Rightarrow> js_error + session" where
  "sibling_step original modified baseMatch baseVersion pkg st =
     (case baseMatch of (baseModifier, baseMajor, baseMinor, basePatch, basePre) \<Rightarrow>
        let g = rnd st; g1 = rest g
        in if draw g < 0.7 then
             let newPatch = js_plus (js_plus (Number basePatch) (random_index 3 g1)) 1;
                 newVersion =
                   or_empty baseModifier @ baseMajor @ ''.'' @ baseMinor @ ''.'' @ num_string newPatch;
                 st1 = st\<lparr>rnd := rest g1\<rparr>
             in (case (if dependencies modified \<noteq> None \<and> pkg \<noteq> []
                       then obj_set (dependencies modified) pkg newVersion (objects st1)
                       else Inr (objects st1)) of
                   Inl e \<Rightarrow> Inl e
                 | Inr h \<Rightarrow>
                     let pushed =
                           (if pkg \<noteq> []
                            then (scrambledDeps st1)
                                   (DEPENDENCIES := scrambledDeps st1 DEPENDENCIES @ [pkg])
                            else scrambledDeps st1);
                         issue =
                           ''Created version mismatch for related package '' @ pkg @ '': ''
                             @ (if pkg \<noteq> []
                                then template (map_of (dict_of h (dependencies original)) pkg)
                                else [])
                             @ '' -> '' @ newVersion @ '' (base: '' @ baseVersion @ '')''
                     in Inr (st1\<lparr>objects := h, scrambledDeps := pushed,
                                issues := issues st1 @ [issue]\<rparr>))
           else Inr (st\<lparr>rnd := g1\<rparr>))"

definition family_step ::
    "PackageJson \<Rightarrow> PackageJson \<Rightarrow> real \<Rightarrow> string list \<Rightarrow> string \<Rightarrow> session \<Rightarrow> js_error + session" where
  "family_step original modified scaledAggression depKeys pfx st =
     (let g = rnd st; st1 = st\<lparr>rnd := rest g\<rparr>
      in if draw g < scaledAggression * 0.7 then
           let relatedPackages = filter (prefix pfx) depKeys
           in if length relatedPackages \<ge> 2 then
                let basePkg = hd relatedPackages;
                    baseVersion =
                      (if basePkg \<noteq> []
                       then map_of (dict_of (objects st1) (dependencies original)) basePkg
                       else Some []);
                    baseMatch =
                      (if truthy baseVersion then VERSION_RANGE_REGEX_exec (or_empty baseVersion)
                       else None)
                in (case baseMatch of
                      None \<Rightarrow> Inr st1
                    | Some m \<Rightarrow>
                        if dependencies modified \<noteq> None then
                          forEach (sibling_step original modified m (template baseVersion))
                            (tl relatedPackages) st1
                        else Inr st1)
              else Inr st1
         else Inr st1)"

definition sibling_strategy ::
    "PackageJson \<Rightarrow> PackageJson \<Rightarrow> DependencyType \<Rightarrow> real \<Rightarrow> string \<Rightarrow> session
      \<Rightarrow> js_error + session" where
  "sibling_strategy original modified currentDepType scaledAggression mode st =
     (if mode = ''realistic'' \<and> currentDepType = DEPENDENCIES then
        let depKeys = Object_keys (dict_of (objects st) (dependencies original))
        in forEach (family_step original modified scaledAggression depKeys)
             (collect_prefixes depKeys) st
      else Inr st)"

definition createRealisticConflicts ::
    "coercion \<Rightarrow> PackageJson \<Rightarrow> PackageJson \<Rightarrow> DependencyType \<Rightarrow> real \<Rightarrow> string \<Rightarrow> session
      \<Rightarrow> js_error + session" where
  "createRealisticConflicts coerce original modified currentDepType aggression mode st =
     (let scaledAggression = aggression / 10
      in case peer_strategy coerce original modified currentDepType mode st of
           Inl e \<Rightarrow> Inl e
         | Inr st1 \<Rightarrow>
             (case transitive_strategy coerce original modified scaledAggression mode st1 of
                Inl e \<Rightarrow> Inl e
              | Inr st2 \<Rightarrow>
                  sibling_strategy original modified currentDepType scaledAggression mode st2))"

section \<open>The Dependency Selector\<close>

text \<open>
  \<^verbatim>\<open>Object.keys(deps).sort(() => Math.random() - 0.5)\<close> runs the engine's sort with a
  comparator that ignores its arguments. ECMAScript leaves the sequence of comparator
  calls, and the order that results from an inconsistent comparator, to the
  implementation; the sort is a parameter \<open>esort\<close> that takes the array and the random
  stream and returns the reordered array and the remaining stream.
\<close>

type_synonym sort_engine = "string list \<Rightarrow> rng \<Rightarrow> string list \<times> rng"

text \<open>\<^verbatim>\<open>xs.slice(0, n)\<close>: a negative end counts from the end of the array.\<close>

definition slice0 :: "'a list \<Rightarrow> int \<Rightarrow> 'a list" where
  "slice0 xs n = take (nat (if n < 0 then int (length xs) + n else n)) xs"

definition scrambleCount :: "nat \<Rightarrow> real \<Rightarrow> int" where
  "scrambleCount totalDeps percentage = \<lceil>real totalDeps * percentage / 100\<rceil>"

definition depsToScramble :: "sort_engine \<Rightarrow> string list \<Rightarrow> real \<Rightarrow> rng \<Rightarrow> string list \<times> rng" where
  "depsToScramble esort depKeys percentage g =
     (let (sorted, g1) = esort depKeys g
      in (slice0 sorted (scrambleCount (length depKeys) percentage), g1))"

definition modified_issue :: "DependencyType \<Rightarrow> string \<Rightarrow> string option \<Rightarrow> string \<Rightarrow> string" where
  "modified_issue t dep originalVersion newVersion =
     ''Modified '' @ depType_string t @ '' '' @ dep @ '': '' @ template originalVersion
       @ '' -> '' @ newVersion"

definition scrambleEntry ::
    "PackageJson \<Rightarrow> DependencyType \<Rightarrow> ref \<Rightarrow> real \<Rightarrow> string \<Rightarrow> bool \<Rightarrow> dict \<Rightarrow> string \<Rightarrow> session
      \<Rightarrow> js_error + session" where
  "scrambleEntry modified t deps aggression mode respectMajor constraints dep st =
     (let originalVersion = map_of (objects st ! deps) dep;
          (newVersion, g1) =
             scrambleVersion (or_empty originalVersion) aggression
               (if respectMajor then Some True else None) (Some dep) (Some constraints) (Some mode)
               (rnd st);
          st1 = st\<lparr>rnd := g1\<rparr>
      in if originalVersion \<noteq> Some newVersion then
           (if category modified t \<noteq> None then
              record_change (category modified t) t dep newVersion
                (modified_issue t dep originalVersion newVersion) st1
            else Inr st1)
         else Inr st1)"

definition processDepType ::
    "sort_engine \<Rightarrow> coercion \<Rightarrow> PackageJson \<Rightarrow> PackageJson \<Rightarrow> real \<Rightarrow> real \<Rightarrow> string \<Rightarrow> bool \<Rightarrow> dict
      \<Rightarrow> DependencyType \<Rightarrow> session \<Rightarrow> js_error + session" where
  "processDepType esort coerce pkg modified percentage aggression mode respectMajor constraints t st =
     (case category pkg t of
        None \<Rightarrow> Inr st
      | Some deps \<Rightarrow>
          let depKeys = Object_keys (objects st ! deps)
          in if length depKeys > 0 then
               let (chosen, g1) = depsToScramble esort depKeys percentage (rnd st)
               in (case forEach
                          (scrambleEntry modified t deps aggression mode respectMajor constraints)
                          chosen (st\<lparr>rnd := g1\<rparr>) of
                     Inl e \<Rightarrow> Inl e
                   | Inr st1 \<Rightarrow>
                       if mode = ''realistic'' \<or> mode = ''peer-conflict'' then
                         createRealisticConflicts coerce pkg modified t aggression mode st1
                       else Inr st1)
             else Inr st)"

text \<open>The option reads at the head of \<^verbatim>\<open>scrambleDependencies\<close>, one per line of the
  source.\<close>

definition effective_types :: "RouletteOptions \<Rightarrow> DependencyType list" where
  "effective_types options =
     object_or (dependencyTypes options) (object_or (dependencyTypes DEFAULT_OPTIONS) [])"

definition effective_percentage :: "RouletteOptions \<Rightarrow> real" where
  "effective_percentage options =
     number_or (scramblePercentage options) (number_or (scramblePercentage DEFAULT_OPTIONS) 30)"

definition effective_aggression :: "RouletteOptions \<Rightarrow> real" where
  "effective_aggression options =
     number_or (aggressionLevel options) (number_or (aggressionLevel DEFAULT_OPTIONS) 5)"

definition effective_mode :: "RouletteOptions \<Rightarrow> string" where
  "effective_mode options =
     string_or (conflictMode options) (string_or (conflictMode DEFAULT_OPTIONS) ''realistic'')"

definition effective_respectMajor :: "RouletteOptions \<Rightarrow> bool" where
  "effective_respectMajor options =
     (case respectMajorVersions options of
        Some b \<Rightarrow> b
      | None \<Rightarrow> respectMajorVersions DEFAULT_OPTIONS = Some True)"

definition effective_constraints :: "RouletteOptions \<Rightarrow> dict" where
  "effective_constraints options =
     object_or (versionConstraints options) (object_or (versionConstraints DEFAULT_OPTIONS) [])"

definition scrambleDependencies ::
    "sort_engine \<Rightarrow> coercion \<Rightarrow> PackageJson \<Rightarrow> RouletteOptions \<Rightarrow> store \<Rightarrow> rng
      \<Rightarrow> js_error + (PackageJson \<times> session)" where
  "scrambleDependencies esort coerce pkg options h g =
     (let (modified, h1) = deep_copy pkg h;
          st0 = \<lparr>objects = h1, rnd = g, scrambledDeps = (\<lambda>t. []), issues = []\<rparr>
      in case forEach
                (processDepType esort coerce pkg modified (effective_percentage options)
                   (effective_aggression options) (effective_mode options)
                   (effective_respectMajor options) (effective_constraints options))
                (effective_types options) st0 of
           Inl e \<Rightarrow> Inl e
         | Inr st \<Rightarrow> Inr (modified, st))"

section \<open>The exact range of the number model\<close>







section \<open>Outcomes and frames\<close>

text \<open>\<open>succeeds r\<close>: the call returned normally (no exception).\<close>

definition succeeds :: "'e + 'a \<Rightarrow> bool" where
  "succeeds r = (case r of Inl e \<Rightarrow> False | Inr x \<Rightarrow> True)"

text \<open>\<open>unchanged_outside W h h'\<close>: the store \<open>h'\<close> has the objects of \<open>h\<close>, and every
  object whose address is not in \<open>W\<close> is as it was.\<close>

definition unchanged_outside :: "ref set \<Rightarrow> store \<Rightarrow> store \<Rightarrow> bool" where
  "unchanged_outside W h h' = (length h' = length h \<and> (\<forall>a. a \<notin> W \<longrightarrow> h' ! a = h ! a))"

text \<open>The objects one category's turn may write: its own copy, the peer copy under
  \<^verbatim>\<open>peer-conflict\<close>, the regular copy under \<^verbatim>\<open>realistic\<close>.\<close>

definition targets :: "PackageJson \<Rightarrow> string \<Rightarrow> DependencyType \<Rightarrow> ref set" where
  "targets modified mode t =
     set_option (category modified t)
     \<union> (if mode = ''peer-conflict'' then set_option (peerDependencies modified) else {})
     \<union> (if mode = ''realistic'' then set_option (dependencies modified) else {})"

text \<open>\<open>writes_within W st r\<close>: if the call that started in \<open>st\<close> returned a session, its
  store differs from that of \<open>st\<close> at most at the addresses in \<open>W\<close>.\<close>

definition writes_within :: "ref set \<Rightarrow> session \<Rightarrow> js_error + session \<Rightarrow> bool" where
  "writes_within W st r =
     (case r of Inl e \<Rightarrow> True | Inr st' \<Rightarrow> unchanged_outside W (objects st) (objects st'))"

section \<open>Sample engines and manifests\<close>

text \<open>
  For an array of at most one element every sort returns the array as it is and never
  calls the comparator; \<open>no_comparison\<close> is that behaviour, used where a concrete run
  over single-entry categories is evaluated. \<open>coerce_sample\<close> gives the value of
  \<^verbatim>\<open>semver.coerce\<close> on the one specifier the sample runs pass to it:
  \<^verbatim>\<open>semver.coerce('^17.0.2')\<close> is \<^verbatim>\<open>17.0.2\<close>.
\<close>

definition no_comparison :: sort_engine where
  "no_comparison xs g = (xs, g)"

definition coerce_sample :: coercion where
  "coerce_sample v = (if v = ''^17.0.2'' then Some (17, 0, 2) else None)"

text \<open>A manifest whose present categories are the objects \<open>0, 1, ...\<close> of the store, in
  the order dependencies, devDependencies, peerDependencies.\<close>

definition manifest :: "ref option \<Rightarrow> ref option \<Rightarrow> ref option \<Rightarrow> PackageJson" where
  "manifest d dv pr =
     \<lparr>manifest_name = ''test-package'', manifest_version = ''1.0.0'',
      dependencies = d, devDependencies = dv, peerDependencies = pr,
      optionalDependencies = None\<rparr>"

definition options_of ::
    "DependencyType list \<Rightarrow> real \<Rightarrow> real \<Rightarrow> string \<Rightarrow> dict \<Rightarrow> RouletteOptions" where
  "options_of ts percentage aggression mode constraints =
     \<lparr>dependencyTypes = Some ts, scramblePercentage = Some percentage,
      aggressionLevel = Some aggression, versionConstraints = Some constraints,
      respectMajorVersions = None, conflictMode = Some mode\<rparr>"


section \<open>The trace of the Selector's mutations\<close>







section \<open>The probability of being selected\<close>





section \<open>The matcher agrees with the version grammar\<close>

lemma take_digits_sound:
  assumes "take_digits s = Some (ds, r)"
  shows "s = ds @ r \<and> digit_string ds"
proof -
  from assms have ds: "ds = takeWhile is_digit s" and r: "r = dropWhile is_digit s" and ne: "ds \<noteq> []"
    by (auto simp: take_digits_def Let_def split: if_splits)
  have "list_all is_digit ds" unfolding ds by (simp add: list_all_iff) (meson set_takeWhileD)
  with ne ds r show ?thesis by (simp add: digit_string_def)
qed

lemma take_digits_complete:
  assumes "digit_string ds" and "r = [] \<or> \<not> is_digit (hd r)"
  shows "take_digits (ds @ r) = Some (ds, r)"
proof -
  from assms(1) have all: "\<forall>x\<in>set ds. is_digit x" and ne: "ds \<noteq> []"
    by (auto simp: digit_string_def list_all_iff)
  from assms(2) have t: "takeWhile is_digit r = []" by (cases r) auto
  from assms(2) have d: "dropWhile is_digit r = r" by (cases r) auto
  from all have "takeWhile is_digit (ds @ r) = ds" by (simp add: takeWhile_append2 t)
  moreover from all have "dropWhile is_digit (ds @ r) = r" by (simp add: dropWhile_append2 d)
  ultimately show ?thesis using ne by (simp add: take_digits_def)
qed

lemma expect_dot_sound: "expect_dot s = Some r \<Longrightarrow> s = CHR ''.'' # r"
  by (auto simp: expect_dot_def split: list.splits if_splits)

lemma match_prerelease_sound:
  "match_prerelease s = Some pre \<Longrightarrow> s = or_empty pre \<and> prerelease_suffix s"
  by (auto simp: match_prerelease_def or_empty_def prerelease_suffix_def split: list.splits if_splits)

lemma match_prerelease_complete:
  "prerelease_suffix p \<Longrightarrow> match_prerelease p = Some (if p = [] then None else Some p)"
  by (auto simp: match_prerelease_def prerelease_suffix_def)

lemma core_sound:
  assumes "match_version_core s = Some (major, minor, patch, pre)"
  shows "s = major @ ''.'' @ minor @ ''.'' @ patch @ or_empty pre \<and> digit_string major
         \<and> digit_string minor \<and> digit_string patch \<and> prerelease_suffix (or_empty pre)"
proof -
  from assms obtain r1 r2 r3 r4 r5 where
    a: "take_digits s = Some (major, r1)" and b: "expect_dot r1 = Some r2" and
    c: "take_digits r2 = Some (minor, r3)" and d: "expect_dot r3 = Some r4" and
    e: "take_digits r4 = Some (patch, r5)" and f: "match_prerelease r5 = Some pre"
    by (auto simp: match_version_core_def split: Option.bind_splits)
  from take_digits_sound[OF a] take_digits_sound[OF c] take_digits_sound[OF e]
    expect_dot_sound[OF b] expect_dot_sound[OF d] match_prerelease_sound[OF f]
  show ?thesis by auto
qed

lemma not_digit_dot: "\<not> is_digit CHR ''.''" by (simp add: is_digit_def)
lemma not_digit_dash: "\<not> is_digit CHR ''-''" by (simp add: is_digit_def)

lemma core_complete:
  assumes "digit_string major" "digit_string minor" "digit_string patch" "prerelease_suffix pre"
  shows "match_version_core (major @ ''.'' @ minor @ ''.'' @ patch @ pre)
           = Some (major, minor, patch, if pre = [] then None else Some pre)"
proof -
  have p: "pre = [] \<or> \<not> is_digit (hd pre)"
    using assms(4) by (auto simp: prerelease_suffix_def not_digit_dash)
  have 1: "take_digits (major @ ''.'' @ minor @ ''.'' @ patch @ pre)
            = Some (major, ''.'' @ minor @ ''.'' @ patch @ pre)"
    by (rule take_digits_complete[OF assms(1)]) (simp add: not_digit_dot)
  have 2: "take_digits (minor @ ''.'' @ patch @ pre) = Some (minor, ''.'' @ patch @ pre)"
    by (rule take_digits_complete[OF assms(2)]) (simp add: not_digit_dot)
  have 3: "take_digits (patch @ pre) = Some (patch, pre)"
    by (rule take_digits_complete[OF assms(3) p])
  show ?thesis
    using 1 2 3 match_prerelease_complete[OF assms(4)]
    by (simp add: match_version_core_def expect_dot_def)
qed

lemma try_modifiers_sound:
  "try_modifiers as s = Some (md, major, minor, patch, pre) \<Longrightarrow>
     (md = None \<or> (\<exists>a\<in>set as. md = Some a)) \<and>
     match_version_core (drop (length (or_empty md)) s) = Some (major, minor, patch, pre) \<and>
     prefix (or_empty md) s"
proof (induction as)
  case Nil
  then show ?case by (auto simp: or_empty_def split: option.splits)
next
  case (Cons a as)
  then show ?case by (auto simp: or_empty_def split: option.splits if_splits)
qed

lemma exec_sound:
  assumes "VERSION_RANGE_REGEX_exec s = Some (md, major, minor, patch, pre)"
  shows "s = or_empty md @ major @ ''.'' @ minor @ ''.'' @ patch @ or_empty pre"
    and "md = None \<or> (\<exists>a\<in>set MODIFIER_ALTERNATIVES. md = Some a)"
    and "digit_string major" "digit_string minor" "digit_string patch"
    and "prerelease_suffix (or_empty pre)"
proof -
  from assms have t: "try_modifiers MODIFIER_ALTERNATIVES s = Some (md, major, minor, patch, pre)"
    by (simp add: VERSION_RANGE_REGEX_exec_def)
  note s = try_modifiers_sound[OF t]
  from s have px: "prefix (or_empty md) s" by simp
  then have eq: "s = or_empty md @ drop (length (or_empty md)) s"
    by (metis append_eq_conv_conj prefix_def)
  from s have c: "match_version_core (drop (length (or_empty md)) s) = Some (major, minor, patch, pre)"
    by simp
  note cs = core_sound[OF c]
  show "s = or_empty md @ major @ ''.'' @ minor @ ''.'' @ patch @ or_empty pre"
    using eq cs by metis
  show "md = None \<or> (\<exists>a\<in>set MODIFIER_ALTERNATIVES. md = Some a)" using s by simp
  show "digit_string major" "digit_string minor" "digit_string patch"
    "prerelease_suffix (or_empty pre)" using cs by simp_all
qed

lemma exec_in_grammar:
  assumes "VERSION_RANGE_REGEX_exec s \<noteq> None"
  shows "version_grammar s"
proof -
  from assms obtain md major minor patch pre where
    e: "VERSION_RANGE_REGEX_exec s = Some (md, major, minor, patch, pre)"
    by (cases "VERSION_RANGE_REGEX_exec s") auto
  note f = exec_sound[OF e]
  have "or_empty md = [] \<or> or_empty md \<in> set MODIFIER_ALTERNATIVES"
    using f(2) by (auto simp: or_empty_def)
  with f show ?thesis unfolding version_grammar_def by blast
qed

lemma digit_not_modifier:
  "is_digit d \<Longrightarrow> d \<noteq> CHR ''^'' \<and> d \<noteq> CHR ''~'' \<and> d \<noteq> CHR ''>'' \<and> d \<noteq> CHR ''<'' \<and> d \<noteq> CHR ''=''
     \<and> CHR ''^'' \<noteq> d \<and> CHR ''~'' \<noteq> d \<and> CHR ''>'' \<noteq> d \<and> CHR ''<'' \<noteq> d \<and> CHR ''='' \<noteq> d"
  by (auto simp: is_digit_def)

lemma exec_complete:
  assumes md: "md = [] \<or> md \<in> set MODIFIER_ALTERNATIVES"
    and dg: "digit_string major" "digit_string minor" "digit_string patch"
    and pr: "prerelease_suffix pre"
  shows "VERSION_RANGE_REGEX_exec (md @ major @ ''.'' @ minor @ ''.'' @ patch @ pre)
           = Some (if md = [] then None else Some md, major, minor, patch,
                   if pre = [] then None else Some pre)"
proof -
  from dg(1) obtain d ms where major: "major = d # ms" and d: "is_digit d"
    by (cases major) (auto simp: digit_string_def)
  define R' where "R' = ms @ ''.'' @ minor @ ''.'' @ patch @ pre"
  have core: "match_version_core (d # R')
                = Some (major, minor, patch, if pre = [] then None else Some pre)"
    using core_complete[OF dg pr] by (simp add: major R'_def)
  have R: "major @ ''.'' @ minor @ ''.'' @ patch @ pre = d # R'"
    by (simp add: major R'_def)
  note nm = digit_not_modifier[OF d]
  from md consider "md = []" | "md = ''^''" | "md = ''~''" | "md = ''>=''" | "md = ''>''"
    | "md = ''<=''" | "md = ''<''" | "md = ''=''"
    by (auto simp: MODIFIER_ALTERNATIVES_def)
  then show ?thesis
    unfolding R VERSION_RANGE_REGEX_exec_def MODIFIER_ALTERNATIVES_def
    by cases (use nm core in simp_all)
qed

lemma grammar_iff_exec: "version_grammar s \<longleftrightarrow> VERSION_RANGE_REGEX_exec s \<noteq> None"
proof
  assume "version_grammar s"
  then obtain md major minor patch pre where
    "s = md @ major @ ''.'' @ minor @ ''.'' @ patch @ pre"
    "md = [] \<or> md \<in> set MODIFIER_ALTERNATIVES"
    "digit_string major" "digit_string minor" "digit_string patch" "prerelease_suffix pre"
    unfolding version_grammar_def by blast
  then show "VERSION_RANGE_REGEX_exec s \<noteq> None"
    using exec_complete by simp
next
  assume "VERSION_RANGE_REGEX_exec s \<noteq> None"
  then show "version_grammar s" by (rule exec_in_grammar)
qed


section \<open>Evaluation rules for concrete inputs\<close>

lemmas regex_eval =
  VERSION_RANGE_REGEX_exec_def MODIFIER_ALTERNATIVES_def match_version_core_def take_digits_def
  is_digit_def expect_dot_def match_prerelease_def is_prerelease_char_def Let_def

lemmas number_eval =
  Number_def digits_val_def digit_val_def f64_round_def Number_toString_def dec.simps
  digit_char_def js_plus_def js_minus_max0_def num_string_def

lemmas rng_eval = draw_def rest_def random_index_def

lemmas mutator_eval =
  scrambleVersion_def find_constraint_def choose_modifier_def change_numbers_def pin_exact_def
  render_version_def or_empty_def shift_component_def createVersionWithinConstraint_def
  VERSION_MODIFIERS_def MAJOR_VERSION_BOUND_def MINOR_VERSION_BOUND_def PATCH_VERSION_BOUND_def
  Object_keys_def matches_package_def


lemmas selector_eval =
  scrambleDependencies_def processDepType_def scrambleEntry_def depsToScramble_def
  scrambleCount_def slice0_def modified_issue_def depType_string_def record_change_def
  obj_set_def deep_copy_def copy_category_def category_def number_or_def string_or_def
  object_or_def DEFAULT_OPTIONS_def template_def dict_of_def effective_types_def
  effective_percentage_def effective_aggression_def effective_mode_def
  effective_respectMajor_def effective_constraints_def Let_def

lemmas sample_eval = no_comparison_def coerce_sample_def manifest_def options_of_def

lemmas strategist_eval =
  createRealisticConflicts_def peer_strategy_def peer_gate_def choose_shared_def peer_write_def
  peer_conflict_version_def transitive_strategy_def transitive_step_def popularPackages_def
  transitiveConflicts_def sibling_strategy_def family_step_def sibling_step_def
  collect_prefixes_def family_prefix_def not_slash_def pick_def truthy_def Let_def

section \<open>Facts about numbers, digits and draws\<close>
















section \<open>The shape of a mutated specifier\<close>















section \<open>Opaque specifiers\<close>

text \<open>
  C1. A string that does not match the version grammar (such as \<^verbatim>\<open>latest\<close> or
  \<^verbatim>\<open>workspace:*\<close>) is returned by \<open>scrambleVersion\<close> exactly as it was given, for every
  aggression level and every combination of hints; no random draw is consumed.
\<close>

theorem C1_opaque_unchanged:
  assumes "\<not> version_grammar s"
  shows "scrambleVersion s level respectMajor pkgName constraints mode g = (s, g)"
proof -
  from assms have "VERSION_RANGE_REGEX_exec s = None"
    using grammar_iff_exec[of s] by blast
  then show ?thesis
    by (simp add: scrambleVersion_def)
qed

theorem C1_opaque_unchanged_witness:
  "\<not> version_grammar ''workspace:*'' \<and>
   scrambleVersion ''workspace:*'' 10 None (Some ''left-pad'') (Some [(''left-pad'', ''^1.0.0'')])
     (Some ''realistic'') (\<lambda>n. 0) = (''workspace:*'', \<lambda>n. 0)"
proof -
  have h: "\<not> version_grammar ''workspace:*''"
    by (simp add: grammar_iff_exec regex_eval)
  from C1_opaque_unchanged[OF h] h show ?thesis
    by blast
qed

section \<open>Grammar preservation\<close>












section \<open>Option defaults and the selection count\<close>

text \<open>
  C10. Inside \<open>scrambleDependencies\<close> a falsy option is replaced by its default: a call
  with \<open>scramblePercentage = 0\<close> behaves as one with \<open>30\<close>, a call with
  \<open>aggressionLevel = 0\<close> as one with \<open>5\<close>, and an empty \<open>conflictMode\<close> as
  \<^verbatim>\<open>realistic\<close>; an explicit zero is never honoured.
\<close>

theorem C10_falsy_options_default:
  "scrambleDependencies esort coerce pkg (options\<lparr>scramblePercentage := Some 0\<rparr>) h g
     = scrambleDependencies esort coerce pkg (options\<lparr>scramblePercentage := Some 30\<rparr>) h g
   \<and> scrambleDependencies esort coerce pkg (options\<lparr>aggressionLevel := Some 0\<rparr>) h g
     = scrambleDependencies esort coerce pkg (options\<lparr>aggressionLevel := Some 5\<rparr>) h g
   \<and> scrambleDependencies esort coerce pkg (options\<lparr>conflictMode := Some ''''\<rparr>) h g
     = scrambleDependencies esort coerce pkg (options\<lparr>conflictMode := Some ''realistic''\<rparr>) h g"
  by (simp add: scrambleDependencies_def effective_percentage_def effective_aggression_def
      effective_mode_def effective_types_def effective_respectMajor_def
      effective_constraints_def number_or_def string_or_def DEFAULT_OPTIONS_def)

theorem C10_falsy_options_default_witness:
  "scrambleDependencies no_comparison coerce_sample (manifest (Some 0) None None)
     ((options_of [DEPENDENCIES] 50 10 ''simple'' [])\<lparr>scramblePercentage := Some 0\<rparr>)
     [[(''a'', ''1.0.0'')]] (\<lambda>n. 0)
   = scrambleDependencies no_comparison coerce_sample (manifest (Some 0) None None)
     ((options_of [DEPENDENCIES] 50 10 ''simple'' [])\<lparr>scramblePercentage := Some 30\<rparr>)
     [[(''a'', ''1.0.0'')]] (\<lambda>n. 0)"
  using C10_falsy_options_default[of no_comparison coerce_sample "manifest (Some 0) None None"
      "options_of [DEPENDENCIES] 50 10 ''simple'' []" "[[(''a'', ''1.0.0'')]]" "\<lambda>n. 0"]
  by blast

text \<open>
  The selection count. For a percentage between 0 and 100 the count
  \<open>ceil(E * P / 100)\<close> lies between 0 and \<open>E\<close>, it is 0 at \<open>P = 0\<close>, and when the
  engine's sort keeps the length of the array exactly that many keys are chosen.
\<close>

lemma scrambleCount_range:
  assumes "0 \<le> P" "P \<le> 100"
  shows "0 \<le> scrambleCount E P \<and> scrambleCount E P \<le> int E"
proof -
  have "real E * P / 100 \<le> real E"
    using assms by (simp add: mult_left_mono)
  then have "\<lceil>real E * P / 100\<rceil> \<le> int E"
    by (simp add: ceiling_le_iff)
  moreover have "0 \<le> real E * P / 100"
    using assms by simp
  then have "0 \<le> \<lceil>real E * P / 100\<rceil>"
    by (simp add: order_trans[OF _ le_of_int_ceiling])
  ultimately show ?thesis
    by (simp add: scrambleCount_def)
qed

lemma scrambleCount_zero: "scrambleCount E 0 = 0"
  by (simp add: scrambleCount_def)

lemma depsToScramble_length:
  assumes "0 \<le> P" "P \<le> 100" "length (fst (esort depKeys g)) = length depKeys"
  shows "int (length (fst (depsToScramble esort depKeys P g))) = scrambleCount (length depKeys) P"
proof -
  obtain sorted g1 where e: "esort depKeys g = (sorted, g1)"
    by fastforce
  with assms(3) have len: "length sorted = length depKeys" by simp
  from scrambleCount_range[OF assms(1,2), of "length depKeys"]
  show ?thesis
    by (auto simp: depsToScramble_def e slice0_def len min_def)
qed

text \<open>
  C3 at \<open>scramblePercentage = 0\<close>. The claim asks for zero candidates; the run below, on a
  manifest with one dependency, selects and mutates that dependency, because the
  percentage that reaches the count is the default 30.
\<close>

lemma mutate_a:
  "scrambleVersion ''1.0.0'' 10 (Some True) (Some ''a'') (Some []) (Some ''simple'') (\<lambda>n. 0)
     = (''^1.0.0'', \<lambda>n. 0)"
  by (simp add: mutator_eval regex_eval number_eval rng_eval)

theorem C3_zero_percentage_run:
  "scrambleDependencies no_comparison coerce_sample (manifest (Some 0) None None)
     (options_of [DEPENDENCIES] 0 10 ''simple'' []) [[(''a'', ''1.0.0'')]] (\<lambda>n. 0)
   = Inr (manifest (Some 1) None None,
          \<lparr>objects = [[(''a'', ''1.0.0'')], [(''a'', ''^1.0.0'')]], rnd = (\<lambda>n. 0),
           scrambledDeps = (\<lambda>t. [])(DEPENDENCIES := [''a'']),
           issues = [''Modified dependencies a: 1.0.0 -> ^1.0.0'']\<rparr>)"
  by (simp add: selector_eval sample_eval Object_keys_def mutate_a or_empty_def)

section \<open>No exception for data-shape reasons\<close>

lemma succeeds_simps [simp]: "succeeds (Inr x)" "\<not> succeeds (Inl e)"
  by (simp_all add: succeeds_def)

lemma succeeds_iff: "succeeds r \<longleftrightarrow> (\<exists>x. r = Inr x)"
  by (cases r) simp_all

lemma forEach_succeeds:
  assumes "\<And>x st. succeeds (f x st)"
  shows "succeeds (forEach f xs st)"
proof (induction xs arbitrary: st)
  case Nil
  show ?case by simp
next
  case (Cons x xs)
  from assms[of x st] obtain st' where "f x st = Inr st'"
    by (auto simp: succeeds_iff)
  with Cons show ?case by simp
qed

lemma record_change_succeeds: "target \<noteq> None \<Longrightarrow> succeeds (record_change target t k v i st)"
  by (auto simp: record_change_def obj_set_def)

lemma peer_write_succeeds: "succeeds (peer_write coerce modified d rv st)"
proof (cases "coerce rv")
  case None
  then show ?thesis by (simp add: peer_write_def)
next
  case (Some c)
  obtain cv g1 where "peer_conflict_version c (rnd st) = (cv, g1)"
    by fastforce
  with Some show ?thesis
    by (simp add: peer_write_def record_change_succeeds)
qed

lemma peer_strategy_succeeds: "succeeds (peer_strategy coerce original modified t mode st)"
proof -
  obtain gate g1 where pg: "peer_gate t mode (rnd st) = (gate, g1)"
    by fastforce
  define shared where "shared = filter (\<lambda>dep. truthy (map_of (dict_of (objects st) (dependencies original)) dep))
     (Object_keys (dict_of (objects st) (peerDependencies original)))"
  obtain sd g2 where cs: "choose_shared shared g1 = (sd, g2)"
    by fastforce
  show ?thesis
    unfolding peer_strategy_def Let_def pg shared_def[symmetric]
    by (simp add: cs peer_write_succeeds split: option.split)
qed

lemma transitive_step_succeeds:
  "dependencies modified \<noteq> None \<Longrightarrow> succeeds (transitive_step original modified v n st)"
  unfolding transitive_step_def Let_def
  by (simp add: record_change_succeeds split: option.split)

lemma transitive_strategy_succeeds:
  "succeeds (transitive_strategy coerce original modified s mode st)"
  unfolding transitive_strategy_def Let_def
  by (simp add: forEach_succeeds transitive_step_succeeds split: option.split prod.split)

lemma sibling_step_succeeds: "succeeds (sibling_step original modified m bv pkg st)"
  unfolding sibling_step_def Let_def
  by (auto simp: obj_set_def split: prod.split option.split)

lemma family_step_succeeds: "succeeds (family_step original modified s depKeys pfx st)"
  unfolding family_step_def Let_def
  by (simp add: forEach_succeeds sibling_step_succeeds split: option.split)

lemma sibling_strategy_succeeds: "succeeds (sibling_strategy original modified t s mode st)"
  unfolding sibling_strategy_def Let_def
  by (simp add: forEach_succeeds family_step_succeeds)

lemma createRealisticConflicts_succeeds:
  "succeeds (createRealisticConflicts coerce original modified t level mode st)"
proof -
  obtain st1 where 1: "peer_strategy coerce original modified t mode st = Inr st1"
    using peer_strategy_succeeds[of coerce original modified t mode st]
    unfolding succeeds_iff by blast
  obtain st2 where 2: "transitive_strategy coerce original modified (level / 10) mode st1 = Inr st2"
    using transitive_strategy_succeeds[of coerce original modified "level / 10" mode st1]
    unfolding succeeds_iff by blast
  show ?thesis
    by (simp add: createRealisticConflicts_def 1 2 sibling_strategy_succeeds)
qed

lemma scrambleEntry_succeeds:
  "succeeds (scrambleEntry modified t deps level mode rm cs dep st)"
  unfolding scrambleEntry_def Let_def
  by (simp add: record_change_succeeds split: prod.split)

lemma processDepType_succeeds:
  "succeeds (processDepType esort coerce pkg modified P level mode rm cs t st)"
proof (cases "category pkg t")
  case None
  then show ?thesis by (simp add: processDepType_def)
next
  case (Some deps)
  obtain chosen g1 where d: "depsToScramble esort (Object_keys (objects st ! deps)) P (rnd st) = (chosen, g1)"
    by fastforce
  obtain st1 where l: "forEach (scrambleEntry modified t deps level mode rm cs) chosen
                          (st\<lparr>rnd := g1\<rparr>) = Inr st1"
    using forEach_succeeds[of "scrambleEntry modified t deps level mode rm cs" chosen
        "st\<lparr>rnd := g1\<rparr>", OF scrambleEntry_succeeds]
    unfolding succeeds_iff by blast
  show ?thesis
    by (simp add: processDepType_def Some Let_def d l createRealisticConflicts_succeeds)
qed

lemma scrambleDependencies_succeeds:
  "succeeds (scrambleDependencies esort coerce pkg options h g)"
proof -
  obtain modified h1 where dc: "deep_copy pkg h = (modified, h1)"
    by fastforce
  have "succeeds (forEach
          (processDepType esort coerce pkg modified (effective_percentage options)
             (effective_aggression options) (effective_mode options)
             (effective_respectMajor options) (effective_constraints options))
          (effective_types options)
          \<lparr>objects = h1, rnd = g, scrambledDeps = (\<lambda>t. []), issues = []\<rparr>)"
    by (rule forEach_succeeds) (rule processDepType_succeeds)
  then show ?thesis
    by (auto simp: scrambleDependencies_def dc succeeds_iff)
qed

text \<open>
  C9. \<open>scrambleVersion\<close>, \<open>scrambleDependencies\<close> and \<open>createRealisticConflicts\<close>
  return normally on every input: opaque or malformed specifiers, missing or empty
  categories, empty prefix groups and unparseable constraint or reference versions lead
  to a skipped branch, never to an exception. (The model of \<open>scrambleVersion\<close> has no
  failing primitive: its only partial steps are the destructurings behind the null
  checks of the source. The other two write into objects that may be absent, and every
  such write is behind a guard.)
\<close>

theorem C9_no_exceptions:
  "(\<exists>out g'. scrambleVersion s level rm pn cs mode g = (out, g')) \<and>
   (\<exists>modified st'. scrambleDependencies esort coerce pkg options h g = Inr (modified, st')) \<and>
   (\<exists>st'. createRealisticConflicts coerce original modified0 t level' mode' st = Inr st')"
proof -
  have "\<exists>out g'. scrambleVersion s level rm pn cs mode g = (out, g')"
    by fastforce
  moreover have "\<exists>modified st'. scrambleDependencies esort coerce pkg options h g = Inr (modified, st')"
    using scrambleDependencies_succeeds[of esort coerce pkg options h g]
    unfolding succeeds_iff by fastforce
  moreover have "\<exists>st'. createRealisticConflicts coerce original modified0 t level' mode' st = Inr st'"
    using createRealisticConflicts_succeeds[of coerce original modified0 t level' mode' st]
    unfolding succeeds_iff by blast
  ultimately show ?thesis
    by blast
qed

theorem C9_no_exceptions_witness:
  "(\<exists>out g'. scrambleVersion ''workspace:*'' 10 None (Some ''a'') (Some [(''a'', ''not-a-version'')])
       (Some ''realistic'') (\<lambda>n. 0) = (out, g')) \<and>
   (\<exists>modified st'. scrambleDependencies no_comparison coerce_sample (manifest (Some 0) None (Some 1))
       (options_of [DEPENDENCIES, PEER_DEPENDENCIES, OPTIONAL_DEPENDENCIES] 100 10 ''realistic''
          [(''a'', ''not-a-version'')])
       [[(''a'', ''latest'')], []] (\<lambda>n. 0) = Inr (modified, st')) \<and>
   (\<exists>st'. createRealisticConflicts coerce_sample (manifest (Some 0) None None)
       (manifest None None None) DEPENDENCIES 10 ''realistic''
       \<lparr>objects = [[(''@scope/a'', ''latest''), (''@scope/b'', ''1.2.3'')]], rnd = (\<lambda>n. 0),
        scrambledDeps = (\<lambda>t. []), issues = []\<rparr> = Inr st')"
  using C9_no_exceptions[of "''workspace:*''" 10 None "Some ''a''" "Some [(''a'', ''not-a-version'')]"
      "Some ''realistic''" "\<lambda>n. 0" no_comparison coerce_sample "manifest (Some 0) None (Some 1)"
      "options_of [DEPENDENCIES, PEER_DEPENDENCIES, OPTIONAL_DEPENDENCIES] 100 10 ''realistic''
          [(''a'', ''not-a-version'')]"
      "[[(''a'', ''latest'')], []]" "manifest (Some 0) None None"
      "manifest None None None" DEPENDENCIES 10 "''realistic''"
      "\<lparr>objects = [[(''@scope/a'', ''latest''), (''@scope/b'', ''1.2.3'')]], rnd = (\<lambda>n. 0),
        scrambledDeps = (\<lambda>t. []), issues = []\<rparr>"]
  by blast

section \<open>Frames: what a run may write\<close>

lemma unchanged_refl [simp]: "unchanged_outside W h h"
  by (simp add: unchanged_outside_def)

lemma unchanged_trans:
  "unchanged_outside W h h' \<Longrightarrow> unchanged_outside W h' h'' \<Longrightarrow> unchanged_outside W h h''"
  by (simp add: unchanged_outside_def)

lemma unchanged_mono: "W \<subseteq> W' \<Longrightarrow> unchanged_outside W h h' \<Longrightarrow> unchanged_outside W' h h'"
  by (auto simp: unchanged_outside_def)

lemma writes_within_simps [simp]:
  "writes_within W st (Inr st') = unchanged_outside W (objects st) (objects st')"
  "writes_within W st (Inl e)"
  by (simp_all add: writes_within_def)

lemma writes_within_mono: "W \<subseteq> W' \<Longrightarrow> writes_within W st r \<Longrightarrow> writes_within W' st r"
  by (cases r) (auto intro: unchanged_mono)

lemma writes_within_start:
  "objects st0 = objects st \<Longrightarrow> writes_within W st r \<Longrightarrow> writes_within W st0 r"
  by (cases r) auto

lemma obj_set_unchanged:
  "obj_set target k v h = Inr h' \<Longrightarrow> unchanged_outside (set_option target) h h'"
  by (cases target) (auto simp: obj_set_def unchanged_outside_def)

lemma record_change_within:
  "writes_within (set_option target) st (record_change target t k v i st)"
  by (cases target) (auto simp: record_change_def obj_set_def unchanged_outside_def)

lemma forEach_within:
  assumes "\<And>x s. writes_within W s (f x s)"
  shows "writes_within W st (forEach f xs st)"
proof (induction xs arbitrary: st)
  case Nil
  show ?case by simp
next
  case (Cons x xs)
  show ?case
  proof (cases "f x st")
    case (Inl e)
    then show ?thesis by simp
  next
    case (Inr st1)
    with assms[of st x] have 1: "unchanged_outside W (objects st) (objects st1)" by simp
    from Cons[of st1] have 2: "writes_within W st1 (forEach f xs st1)" .
    show ?thesis
    proof (cases "forEach f xs st1")
      case (Inl e)
      with Inr show ?thesis by simp
    next
      case (Inr st2)
      with 2 have "unchanged_outside W (objects st1) (objects st2)" by simp
      with 1 have "unchanged_outside W (objects st) (objects st2)" by (rule unchanged_trans)
      with Inr \<open>f x st = Inr st1\<close> show ?thesis by simp
    qed
  qed
qed

lemma peer_write_within:
  "writes_within (set_option (peerDependencies modified)) st (peer_write coerce modified d rv st)"
proof (cases "coerce rv")
  case None
  then show ?thesis by (simp add: peer_write_def)
next
  case (Some c)
  obtain cv g1 where pc: "peer_conflict_version c (rnd st) = (cv, g1)"
    by fastforce
  have "writes_within (set_option (peerDependencies modified)) (st\<lparr>rnd := g1\<rparr>)
          (record_change (peerDependencies modified) PEER_DEPENDENCIES d cv
             (''Created peer dependency conflict for '' @ d @ '': regular='' @ rv @ '', peer='' @ cv)
             (st\<lparr>rnd := g1\<rparr>))"
    by (rule record_change_within)
  then show ?thesis
    by (simp add: peer_write_def Some pc writes_within_start[of st "st\<lparr>rnd := g1\<rparr>"])
qed

lemma peer_strategy_within:
  "writes_within (if t = PEER_DEPENDENCIES \<or> mode = ''peer-conflict''
                  then set_option (peerDependencies modified) else {}) st
     (peer_strategy coerce original modified t mode st)"
proof -
  obtain gate g1 where pg: "peer_gate t mode (rnd st) = (gate, g1)"
    by fastforce
  have gate: "gate \<Longrightarrow> t = PEER_DEPENDENCIES \<or> mode = ''peer-conflict''"
    using pg by (auto simp: peer_gate_def split: if_splits)
  define shared where "shared = filter (\<lambda>dep. truthy (map_of (dict_of (objects st) (dependencies original)) dep))
     (Object_keys (dict_of (objects st) (peerDependencies original)))"
  obtain sd g2 where cs: "choose_shared shared g1 = (sd, g2)"
    by fastforce
  have w: "\<And>d rv. writes_within (set_option (peerDependencies modified)) st
               (peer_write coerce modified d rv (st\<lparr>rnd := g2\<rparr>))"
    using peer_write_within[of modified "st\<lparr>rnd := g2\<rparr>" coerce]
    by (simp add: writes_within_start[of st "st\<lparr>rnd := g2\<rparr>"])
  show ?thesis
    unfolding peer_strategy_def Let_def pg shared_def[symmetric]
    using gate w by (simp add: cs split: option.split)
qed


lemma transitive_step_within:
  "writes_within (set_option (dependencies modified)) st (transitive_step original modified v n st)"
  unfolding transitive_step_def Let_def
  by (simp add: record_change_within split: option.split)

lemma forEach_within_start:
  assumes "\<And>x s. writes_within W s (f x s)" and "objects st0 = objects st"
  shows "writes_within W st0 (forEach f xs st)"
  using forEach_within[of W f st xs, OF assms(1)] assms(2) by (rule writes_within_start[rotated])

lemma transitive_strategy_within:
  "writes_within (if mode = ''realistic'' then set_option (dependencies modified) else {}) st
     (transitive_strategy coerce original modified s mode st)"
proof (cases "mode = ''realistic''")
  case False
  then show ?thesis by (simp add: transitive_strategy_def)
next
  case True
  have loop: "\<And>v g. writes_within (set_option (dependencies modified)) st
                 (forEach (transitive_step original modified v) transitiveConflicts (st\<lparr>rnd := g\<rparr>))"
    by (rule forEach_within_start) (simp_all add: transitive_step_within)
  show ?thesis
    unfolding transitive_strategy_def Let_def
    using True loop by (simp split: option.split prod.split)
qed

lemma sibling_step_within:
  "writes_within (set_option (dependencies modified)) st (sibling_step original modified m bv pkg st)"
proof -
  obtain a b c d e where m: "m = (a, b, c, d, e)"
    by (cases m) auto
  show ?thesis
    unfolding sibling_step_def Let_def m
    by (cases "dependencies modified") (auto simp: obj_set_def unchanged_outside_def)
qed

lemma family_step_within:
  "writes_within (set_option (dependencies modified)) st (family_step original modified s depKeys pfx st)"
proof -
  have loop: "\<And>m bv xs. writes_within (set_option (dependencies modified)) st
                 (forEach (sibling_step original modified m bv) xs (st\<lparr>rnd := rest (rnd st)\<rparr>))"
    by (rule forEach_within_start) (simp_all add: sibling_step_within)
  show ?thesis
    unfolding family_step_def Let_def
    using loop by (simp split: option.split)
qed

lemma sibling_strategy_within:
  "writes_within (if mode = ''realistic'' \<and> t = DEPENDENCIES then set_option (dependencies modified) else {})
     st (sibling_strategy original modified t s mode st)"
  unfolding sibling_strategy_def Let_def
  by (simp add: forEach_within family_step_within)

lemma within_then:
  assumes "writes_within W st r"
    and "\<And>st1. r = Inr st1 \<Longrightarrow> writes_within W st1 (k st1)"
  shows "writes_within W st (case r of Inl e \<Rightarrow> Inl e | Inr st1 \<Rightarrow> k st1)"
proof (cases r)
  case (Inl e)
  then show ?thesis by simp
next
  case (Inr st1)
  with assms(1) have 1: "unchanged_outside W (objects st) (objects st1)" by simp
  from assms(2)[OF Inr] have 2: "writes_within W st1 (k st1)" .
  show ?thesis
  proof (cases "k st1")
    case (Inl e)
    with Inr show ?thesis by simp
  next
    case (Inr st2)
    with 2 have "unchanged_outside W (objects st1) (objects st2)" by simp
    with 1 have "unchanged_outside W (objects st) (objects st2)" by (rule unchanged_trans)
    with Inr \<open>r = Inr st1\<close> show ?thesis by simp
  qed
qed

lemma strategist_targets:
  "(if t = PEER_DEPENDENCIES \<or> mode = ''peer-conflict'' then set_option (peerDependencies modified) else {})
     \<subseteq> targets modified mode t"
  "(if mode = ''realistic'' then set_option (dependencies modified) else {}) \<subseteq> targets modified mode t"
  "(if mode = ''realistic'' \<and> t = DEPENDENCIES then set_option (dependencies modified) else {})
     \<subseteq> targets modified mode t"
  by (auto simp: targets_def category_def)

lemma createRealisticConflicts_within:
  "writes_within (targets modified mode t) st
     (createRealisticConflicts coerce original modified t level mode st)"
  unfolding createRealisticConflicts_def Let_def
  by (intro within_then writes_within_mono[OF strategist_targets(1) peer_strategy_within]
      writes_within_mono[OF strategist_targets(2) transitive_strategy_within]
      writes_within_mono[OF strategist_targets(3) sibling_strategy_within])

lemma scrambleEntry_within:
  "writes_within (set_option (category modified t)) st
     (scrambleEntry modified t deps level mode rm cs dep st)"
proof -
  obtain nv g1 where sv: "scrambleVersion (or_empty (map_of (objects st ! deps) dep)) level
      (if rm then Some True else None) (Some dep) (Some cs) (Some mode) (rnd st) = (nv, g1)"
    by fastforce
  have "writes_within (set_option (category modified t)) (st\<lparr>rnd := g1\<rparr>)
          (record_change (category modified t) t dep nv
             (modified_issue t dep (map_of (objects st ! deps) dep) nv) (st\<lparr>rnd := g1\<rparr>))"
    by (rule record_change_within)
  then have "writes_within (set_option (category modified t)) st
          (record_change (category modified t) t dep nv
             (modified_issue t dep (map_of (objects st ! deps) dep) nv) (st\<lparr>rnd := g1\<rparr>))"
    by (rule writes_within_start[rotated]) simp
  then show ?thesis
    unfolding scrambleEntry_def Let_def sv by simp
qed

lemma processDepType_within:
  "writes_within (targets modified mode t) st
     (processDepType esort coerce pkg modified P level mode rm cs t st)"
proof (cases "category pkg t")
  case None
  then show ?thesis by (simp add: processDepType_def)
next
  case (Some deps)
  obtain chosen g1 where d: "depsToScramble esort (Object_keys (objects st ! deps)) P (rnd st) = (chosen, g1)"
    by fastforce
  have sub: "set_option (category modified t) \<subseteq> targets modified mode t"
    by (auto simp: targets_def)
  have loop: "writes_within (targets modified mode t) st
                (forEach (scrambleEntry modified t deps level mode rm cs) chosen (st\<lparr>rnd := g1\<rparr>))"
    by (rule forEach_within_start) (simp_all add: writes_within_mono[OF sub scrambleEntry_within])
  have "writes_within (targets modified mode t) st
          (case forEach (scrambleEntry modified t deps level mode rm cs) chosen (st\<lparr>rnd := g1\<rparr>) of
             Inl e \<Rightarrow> Inl e
           | Inr st1 \<Rightarrow>
               if mode = ''realistic'' \<or> mode = ''peer-conflict'' then
                 createRealisticConflicts coerce pkg modified t level mode st1
               else Inr st1)"
    by (rule within_then[OF loop]) (simp add: createRealisticConflicts_within)
  then show ?thesis
    by (simp add: processDepType_def Some Let_def d)
qed


lemma forEach_within_set:
  assumes "\<And>x s. x \<in> set xs \<Longrightarrow> writes_within W s (f x s)"
  shows "writes_within W st (forEach f xs st)"
  using assms
proof (induction xs arbitrary: st)
  case Nil
  show ?case by simp
next
  case (Cons x xs)
  have head: "writes_within W st (f x st)"
    by (rule Cons.prems) simp
  have tail: "\<And>st1. writes_within W st1 (forEach f xs st1)"
    by (rule Cons.IH) (simp add: Cons.prems)
  have "writes_within W st (case f x st of Inl e \<Rightarrow> Inl e | Inr st1 \<Rightarrow> forEach f xs st1)"
    by (rule within_then[OF head]) (rule tail)
  then show ?case by simp
qed

lemma deep_copy_props:
  assumes "deep_copy pkg h = (modified, h1)"
  shows "take (length h) h1 = h"
    and "length h \<le> length h1"
    and "\<And>t b. category modified t = Some b \<Longrightarrow> length h \<le> b \<and> b < length h1"
    and "\<And>t. category modified t = None \<longleftrightarrow> category pkg t = None"
    and "\<And>t t' b. category modified t = Some b \<Longrightarrow> category modified t' = Some b \<Longrightarrow> t = t'"
    and "\<And>t a b. category pkg t = Some a \<Longrightarrow> a < length h \<Longrightarrow> category modified t = Some b
           \<Longrightarrow> h1 ! b = h ! a"
  using assms
  by (cases "dependencies pkg"; cases "devDependencies pkg"; cases "peerDependencies pkg";
      cases "optionalDependencies pkg";
      auto simp: deep_copy_def copy_category_def category_def nth_append
        split: DependencyType.splits)+

lemma scrambleDependencies_frame:
  assumes "scrambleDependencies esort coerce pkg options h g = Inr (modified, st)"
  shows "\<exists>h1. deep_copy pkg h = (modified, h1) \<and>
           unchanged_outside (\<Union>t\<in>set (effective_types options). targets modified (effective_mode options) t)
             h1 (objects st)"
proof -
  obtain m h1 where dc: "deep_copy pkg h = (m, h1)"
    by fastforce
  define W where "W = (\<Union>t\<in>set (effective_types options). targets m (effective_mode options) t)"
  define st0 where "st0 = \<lparr>objects = h1, rnd = g, scrambledDeps = (\<lambda>t. []), issues = []\<rparr>"
  define step where "step = processDepType esort coerce pkg m (effective_percentage options)
             (effective_aggression options) (effective_mode options)
             (effective_respectMajor options) (effective_constraints options)"
  have w: "writes_within W st0 (forEach step (effective_types options) st0)"
  proof (rule forEach_within_set)
    fix x s assume "x \<in> set (effective_types options)"
    then have "targets m (effective_mode options) x \<subseteq> W"
      by (auto simp: W_def)
    then show "writes_within W s (step x s)"
      unfolding step_def by (rule writes_within_mono[OF _ processDepType_within])
  qed
  from assms have r: "(case forEach step (effective_types options) st0 of
                         Inl e \<Rightarrow> Inl e | Inr st' \<Rightarrow> Inr (m, st')) = Inr (modified, st)"
    by (simp add: scrambleDependencies_def dc step_def st0_def)
  then have "forEach step (effective_types options) st0 = Inr st" and "m = modified"
    by (auto split: sum.splits)
  with w have "unchanged_outside W h1 (objects st)"
    by (simp add: st0_def)
  with dc \<open>m = modified\<close> show ?thesis
    by (auto simp: W_def)
qed

lemma targets_fresh:
  assumes "deep_copy pkg h = (modified, h1)"
  shows "targets modified mode t \<subseteq> {b. length h \<le> b}"
  using deep_copy_props(3)[OF assms]
  by (auto simp: targets_def category_def[symmetric]
      dest: deep_copy_props(3)[OF assms, of PEER_DEPENDENCIES, unfolded category_def, simplified]
        deep_copy_props(3)[OF assms, of DEPENDENCIES, unfolded category_def, simplified]
      split: if_splits)


section \<open>The input manifest and the unlisted categories\<close>

text \<open>
  C7. \<open>scrambleDependencies\<close> never mutates its input: the call returns, every object
  that was in the store before the call (the caller's manifest with its four category
  maps among them) is as it was, and the categories of the returned \<open>modified\<close>
  manifest are objects allocated by the call, so every write went to the deep copy.
\<close>

theorem C7_input_never_mutated:
  "\<exists>modified st. scrambleDependencies esort coerce pkg options h g = Inr (modified, st)
      \<and> take (length h) (objects st) = h
      \<and> (\<forall>t b. category modified t = Some b \<longrightarrow> length h \<le> b)"
proof -
  obtain modified st where run: "scrambleDependencies esort coerce pkg options h g = Inr (modified, st)"
    using scrambleDependencies_succeeds[of esort coerce pkg options h g]
    unfolding succeeds_iff by fastforce
  from scrambleDependencies_frame[OF run] obtain h1 where
    dc: "deep_copy pkg h = (modified, h1)" and
    un: "unchanged_outside (\<Union>t\<in>set (effective_types options). targets modified (effective_mode options) t)
           h1 (objects st)"
    by blast
  have W: "(\<Union>t\<in>set (effective_types options). targets modified (effective_mode options) t)
             \<subseteq> {b. length h \<le> b}"
    using targets_fresh[OF dc] by blast
  from unchanged_mono[OF W un] have len: "length (objects st) = length h1"
    and same: "\<And>a. a < length h \<Longrightarrow> objects st ! a = h1 ! a"
    by (auto simp: unchanged_outside_def)
  have "take (length h) (objects st) = take (length h) h1"
    by (rule nth_equalityI) (simp_all add: len same)
  then have "take (length h) (objects st) = h"
    by (simp add: deep_copy_props(1)[OF dc])
  moreover have "\<forall>t b. category modified t = Some b \<longrightarrow> length h \<le> b"
    using deep_copy_props(3)[OF dc] by blast
  ultimately show ?thesis
    using run by blast
qed


theorem C7_input_never_mutated_witness:
  "\<exists>modified st.
     scrambleDependencies no_comparison coerce_sample (manifest (Some 0) (Some 1) None)
       (options_of [DEPENDENCIES, DEV_DEPENDENCIES] 100 10 ''realistic'' [])
       [[(''react'', ''^17.0.2'')], [(''jest'', ''^27.4.7'')]] (\<lambda>n. 0) = Inr (modified, st)
     \<and> take (length [[(''react'', ''^17.0.2'')], [(''jest'', ''^27.4.7'')]]) (objects st)
         = [[(''react'', ''^17.0.2'')], [(''jest'', ''^27.4.7'')]]
     \<and> (\<forall>t b. category modified t = Some b
            \<longrightarrow> length [[(''react'', ''^17.0.2'')], [(''jest'', ''^27.4.7'')]] \<le> b)"
  by (rule C7_input_never_mutated)

text \<open>
  C4, as amended. A category that is not listed in \<open>dependencyTypes\<close> is never written
  when it is \<open>devDependencies\<close> or \<open>optionalDependencies\<close>, when it is
  \<open>peerDependencies\<close> and the mode is not \<^verbatim>\<open>peer-conflict\<close>, or when it is
  \<open>dependencies\<close> and the mode is not \<^verbatim>\<open>realistic\<close>: its map in the modified manifest
  equals the original. (Under \<^verbatim>\<open>peer-conflict\<close> the Strategist writes the peer map, and
  under \<^verbatim>\<open>realistic\<close> the regular map, whatever is listed.)
\<close>

theorem C4_unlisted_categories_kept:
  assumes run: "scrambleDependencies esort coerce pkg options h g = Inr (modified, st)"
    and unlisted: "t \<notin> set (effective_types options)"
    and valid: "\<forall>a. category pkg t = Some a \<longrightarrow> a < length h"
    and own: "t = DEV_DEPENDENCIES \<or> t = OPTIONAL_DEPENDENCIES
              \<or> (t = PEER_DEPENDENCIES \<and> effective_mode options \<noteq> ''peer-conflict'')
              \<or> (t = DEPENDENCIES \<and> effective_mode options \<noteq> ''realistic'')"
  shows "dict_of (objects st) (category modified t) = dict_of h (category pkg t)"
proof (cases "category pkg t")
  case None
  from scrambleDependencies_frame[OF run] obtain h1 where dc: "deep_copy pkg h = (modified, h1)"
    by blast
  from None deep_copy_props(4)[OF dc, of t] show ?thesis
    by (simp add: dict_of_def)
next
  case (Some a)
  from scrambleDependencies_frame[OF run] obtain h1 where
    dc: "deep_copy pkg h = (modified, h1)" and
    un: "unchanged_outside (\<Union>t\<in>set (effective_types options). targets modified (effective_mode options) t)
           h1 (objects st)"
    by blast
  from Some deep_copy_props(4)[OF dc, of t] obtain b where b: "category modified t = Some b"
    by auto
  note distinct = deep_copy_props(5)[OF dc]
  have "b \<notin> targets modified (effective_mode options) t'" if "t' \<in> set (effective_types options)" for t'
  proof -
    from that unlisted have ne: "t' \<noteq> t" by auto
    have 1: "category modified t' \<noteq> Some b"
      using distinct[OF b, of t'] ne by auto
    have 2: "effective_mode options = ''peer-conflict'' \<Longrightarrow> peerDependencies modified \<noteq> Some b"
      using distinct[OF b, of PEER_DEPENDENCIES] own by (auto simp: category_def)
    have 3: "effective_mode options = ''realistic'' \<Longrightarrow> dependencies modified \<noteq> Some b"
      using distinct[OF b, of DEPENDENCIES] own by (auto simp: category_def)
    show ?thesis
      using 1 2 3 by (auto simp: targets_def)
  qed
  then have "b \<notin> (\<Union>t\<in>set (effective_types options). targets modified (effective_mode options) t)"
    by blast
  with un have "objects st ! b = h1 ! b"
    by (simp add: unchanged_outside_def)
  also have "h1 ! b = h ! a"
    using deep_copy_props(6)[OF dc Some _ b] valid Some by simp
  finally show ?thesis
    by (simp add: dict_of_def b Some)
qed


theorem C4_unlisted_categories_kept_witness:
  "\<exists>modified st.
     scrambleDependencies no_comparison coerce_sample (manifest (Some 0) (Some 1) None)
       (options_of [DEPENDENCIES] 100 10 ''realistic'' [])
       [[(''react'', ''^17.0.2'')], [(''jest'', ''^27.4.7'')]] (\<lambda>n. 0) = Inr (modified, st)
     \<and> DEV_DEPENDENCIES \<notin> set (effective_types (options_of [DEPENDENCIES] 100 10 ''realistic'' []))
     \<and> dict_of (objects st) (category modified DEV_DEPENDENCIES) = [(''jest'', ''^27.4.7'')]"
proof -
  obtain modified st where
    run: "scrambleDependencies no_comparison coerce_sample (manifest (Some 0) (Some 1) None)
       (options_of [DEPENDENCIES] 100 10 ''realistic'' [])
       [[(''react'', ''^17.0.2'')], [(''jest'', ''^27.4.7'')]] (\<lambda>n. 0) = Inr (modified, st)"
    using scrambleDependencies_succeeds[of no_comparison coerce_sample
        "manifest (Some 0) (Some 1) None" "options_of [DEPENDENCIES] 100 10 ''realistic'' []"
        "[[(''react'', ''^17.0.2'')], [(''jest'', ''^27.4.7'')]]" "\<lambda>n. 0"]
    unfolding succeeds_iff by fastforce
  have unlisted: "DEV_DEPENDENCIES
      \<notin> set (effective_types (options_of [DEPENDENCIES] 100 10 ''realistic'' []))"
    by (simp add: effective_types_def options_of_def object_or_def)
  have valid: "\<forall>a. category (manifest (Some 0) (Some 1) None) DEV_DEPENDENCIES = Some a
      \<longrightarrow> a < length [[(''react'', ''^17.0.2'')], [(''jest'', ''^27.4.7'')]]"
    by (simp add: category_def manifest_def)
  have "dict_of (objects st) (category modified DEV_DEPENDENCIES)
      = dict_of [[(''react'', ''^17.0.2'')], [(''jest'', ''^27.4.7'')]]
          (category (manifest (Some 0) (Some 1) None) DEV_DEPENDENCIES)"
    by (rule C4_unlisted_categories_kept[OF run unlisted valid]) simp
  then have "dict_of (objects st) (category modified DEV_DEPENDENCIES) = [(''jest'', ''^27.4.7'')]"
    by (simp add: dict_of_def category_def manifest_def)
  with run unlisted show ?thesis
    by blast
qed

text \<open>
  The claim as stated fails: with only \<open>devDependencies\<close> listed and the mode
  \<^verbatim>\<open>realistic\<close>, the transitive strategy rewrites \<open>react\<close> in the regular dependencies.
\<close>

lemma mutate_jest:
  "scrambleVersion ''^27.4.7'' 10 (Some True) (Some ''jest'') (Some []) (Some ''realistic'') (\<lambda>n. 0)
     = (''27.3.8'', \<lambda>n. 0)"
  by (simp add: mutator_eval regex_eval number_eval rng_eval)

lemma realistic_run:
  "scrambleDependencies no_comparison coerce_sample (manifest (Some 0) (Some 1) None)
     (options_of [DEV_DEPENDENCIES] 100 10 ''realistic'' [])
     [[(''react'', ''^17.0.2'')], [(''jest'', ''^27.4.7'')]] (\<lambda>n. 0)
   = Inr (manifest (Some 2) (Some 3) None,
      \<lparr>objects = [[(''react'', ''^17.0.2'')], [(''jest'', ''^27.4.7'')],
                 [(''react'', ''17.0.0'')], [(''jest'', ''27.3.8'')]],
      rnd = (\<lambda>n. 0),
      scrambledDeps = (\<lambda>t. [])(DEV_DEPENDENCIES := [''jest''], DEPENDENCIES := [''react'']),
      issues = [''Modified devDependencies jest: ^27.4.7 -> 27.3.8'',
                ''Created potential transitive dependency conflict for react: ^17.0.2 -> 17.0.0'']\<rparr>)"
  by (simp add: selector_eval strategist_eval sample_eval rng_eval number_eval Object_keys_def
      mutate_jest or_empty_def)

theorem C4_transitive_counterexample:
  "effective_types (options_of [DEV_DEPENDENCIES] 100 10 ''realistic'' []) = [DEV_DEPENDENCIES]
   \<and> effective_mode (options_of [DEV_DEPENDENCIES] 100 10 ''realistic'' []) = ''realistic''
   \<and> (\<exists>modified st.
        scrambleDependencies no_comparison coerce_sample (manifest (Some 0) (Some 1) None)
          (options_of [DEV_DEPENDENCIES] 100 10 ''realistic'' [])
          [[(''react'', ''^17.0.2'')], [(''jest'', ''^27.4.7'')]] (\<lambda>n. 0) = Inr (modified, st)
        \<and> dict_of (objects st) (dependencies modified) = [(''react'', ''17.0.0'')]
        \<and> dict_of [[(''react'', ''^17.0.2'')], [(''jest'', ''^27.4.7'')]]
             (dependencies (manifest (Some 0) (Some 1) None)) = [(''react'', ''^17.0.2'')])"
proof -
  have a: "effective_types (options_of [DEV_DEPENDENCIES] 100 10 ''realistic'' []) = [DEV_DEPENDENCIES]"
    by (simp add: effective_types_def options_of_def object_or_def)
  have b: "effective_mode (options_of [DEV_DEPENDENCIES] 100 10 ''realistic'' []) = ''realistic''"
    by (simp add: effective_mode_def options_of_def string_or_def)
  have c: "dict_of [[(''react'', ''^17.0.2'')], [(''jest'', ''^27.4.7'')]]
             (dependencies (manifest (Some 0) (Some 1) None)) = [(''react'', ''^17.0.2'')]"
    by (simp add: dict_of_def manifest_def)
  have d: "dict_of
             (objects
                \<lparr>objects = [[(''react'', ''^17.0.2'')], [(''jest'', ''^27.4.7'')],
                            [(''react'', ''17.0.0'')], [(''jest'', ''27.3.8'')]],
                 rnd = (\<lambda>n. 0),
                 scrambledDeps =
                   (\<lambda>t. [])(DEV_DEPENDENCIES := [''jest''], DEPENDENCIES := [''react'']),
                 issues = [''Modified devDependencies jest: ^27.4.7 -> 27.3.8'',
                   ''Created potential transitive dependency conflict for react: ^17.0.2 -> 17.0.0'']\<rparr>)
             (dependencies (manifest (Some 2) (Some 3) None)) = [(''react'', ''17.0.0'')]"
    by (simp add: dict_of_def manifest_def)
  from realistic_run d have
    "\<exists>modified st.
        scrambleDependencies no_comparison coerce_sample (manifest (Some 0) (Some 1) None)
          (options_of [DEV_DEPENDENCIES] 100 10 ''realistic'' [])
          [[(''react'', ''^17.0.2'')], [(''jest'', ''^27.4.7'')]] (\<lambda>n. 0) = Inr (modified, st)
        \<and> dict_of (objects st) (dependencies modified) = [(''react'', ''17.0.0'')]"
    by blast
  with a b c show ?thesis
    by blast
qed

section \<open>Constraint adherence\<close>







section \<open>What the Selector records\<close>







text \<open>Inside \<open>scrambleDependencies\<close> the premises of C8 hold for every category that is
  present in the input: its copy is a newly allocated object.\<close>

lemma selector_premises:
  assumes "deep_copy pkg h = (modified, h1)" and "category pkg t = Some deps" and "deps < length h"
  shows "\<exists>m. category modified t = Some m \<and> m < length h1 \<and> m \<noteq> deps"
proof -
  from assms(2) deep_copy_props(4)[OF assms(1), of t] obtain m where m: "category modified t = Some m"
    by auto
  from deep_copy_props(3)[OF assms(1) m] assms(3) m show ?thesis
    by auto
qed

section \<open>The selection of the entries to scramble\<close>









end
